theory Spec2Isabelle
  imports Complex_Main
begin

section \<open>Trading-session classification (QBox frontend)\<close>

text \<open>
  The session engine of the QBox frontend: the catalogue \<^verbatim>\<open>SESSION_DEFINITIONS\<close>, the
  window test \<^verbatim>\<open>isWithinWindow\<close>, the regime label \<^verbatim>\<open>computeDstLabel\<close> and the two
  snapshot functions \<^verbatim>\<open>getUsSessionSnapshot\<close> and \<^verbatim>\<open>getHkSessionSnapshot\<close>.

  Conventions of the embedding.
  \<^item> A JavaScript string is the list of the bytes of its UTF-8 encoding; the encoding is
    injective, so \<^verbatim>\<open>===\<close> on strings is equality of the byte lists. The Chinese literals
    of the source are written byte by byte, with their code points in the text above each.
  \<^item> A JavaScript number that may be \<^verbatim>\<open>NaN\<close> is an option value, \<open>None\<close> being
    \<^verbatim>\<open>NaN\<close>; every comparison with \<^verbatim>\<open>NaN\<close> is false. Minute counts are integers
    (exact in the source as long as they stay below \<open>2^53\<close>), offsets are rationals.
  \<^item> A \<^verbatim>\<open>Date\<close> is its time value, the milliseconds since the epoch; an invalid
    \<^verbatim>\<open>Date\<close>, on which the formatters of the runtime throw, is not an instant.
  \<^item> What \<^verbatim>\<open>Intl.DateTimeFormat\<close>, \<^verbatim>\<open>Date.prototype.toLocaleString\<close> and the
    \<^verbatim>\<open>Date\<close> constructor compute belongs to the runtime and its time-zone data: it is
    the record \<open>host\<close>, a parameter of every function that consults it.
\<close>

subsection \<open>Data model\<close>

type_synonym Date = int

datatype Market = Us | Hk

record TradingWindow =
  start :: string
  end' :: string

record TradingSessionDefinition =
  name :: string
  market :: Market
  timeZone :: string
  windows :: "TradingWindow list"
  supportsDst :: "bool option"
  description :: "string option"

record SessionSnapshot =
  current :: "TradingSessionDefinition option"
  localTime :: string
  dstLabel :: string

text \<open>
  The runtime. \<open>hourPart\<close> and \<open>minutePart\<close> are the numbers read from the \<^verbatim>\<open>hour\<close>
  and \<^verbatim>\<open>minute\<close> parts of the \<^verbatim>\<open>zh-CN\<close> formatter of \<^verbatim>\<open>getMinutesInTimeZone\<close>
  (0 for a missing part); \<open>timeZoneName\<close> is the \<^verbatim>\<open>timeZoneName\<close> part of the
  \<^verbatim>\<open>en-US\<close> formatter of \<^verbatim>\<open>computeDstLabel\<close>, \<open>None\<close> when there is none;
  \<open>localizedTime d tz\<close> is the time value of
  \<^verbatim>\<open>new Date(d.toLocaleString("en-US", { timeZone: tz }))\<close>, \<open>None\<close> when the
  runtime cannot parse its own rendering; \<open>getUTCFullYear\<close> and \<open>DateUTC\<close> are
  \<^verbatim>\<open>Date.prototype.getUTCFullYear\<close> and \<^verbatim>\<open>Date.UTC(year, month, day)\<close>;
  \<open>formatLocal\<close> is the output of the formatter of \<^verbatim>\<open>formatLocalTime\<close>.
\<close>

record host =
  hourPart :: "Date \<Rightarrow> string \<Rightarrow> nat"
  minutePart :: "Date \<Rightarrow> string \<Rightarrow> nat"
  timeZoneName :: "Date \<Rightarrow> string \<Rightarrow> string option"
  localizedTime :: "Date \<Rightarrow> string \<Rightarrow> int option"
  getUTCFullYear :: "Date \<Rightarrow> int"
  DateUTC :: "int \<Rightarrow> int \<Rightarrow> int \<Rightarrow> Date"
  formatLocal :: "Date \<Rightarrow> string \<Rightarrow> string"

subsection \<open>Numbers and strings of the runtime\<close>

text \<open>The comparisons \<^verbatim>\<open><=\<close>, \<^verbatim>\<open><\<close>, \<^verbatim>\<open>>=\<close> and \<^verbatim>\<open>Math.max\<close> on numbers that may be \<^verbatim>\<open>NaN\<close>.\<close>

definition js_le :: "'a::linorder option \<Rightarrow> 'a option \<Rightarrow> bool" where
  "js_le a b = (case a of None \<Rightarrow> False | Some x \<Rightarrow> (case b of None \<Rightarrow> False | Some y \<Rightarrow> x \<le> y))"

definition js_lt :: "'a::linorder option \<Rightarrow> 'a option \<Rightarrow> bool" where
  "js_lt a b = (case a of None \<Rightarrow> False | Some x \<Rightarrow> (case b of None \<Rightarrow> False | Some y \<Rightarrow> x < y))"

definition js_ge :: "'a::linorder option \<Rightarrow> 'a option \<Rightarrow> bool" where
  "js_ge a b = (case a of None \<Rightarrow> False | Some x \<Rightarrow> (case b of None \<Rightarrow> False | Some y \<Rightarrow> y \<le> x))"

definition js_max :: "'a::linorder option \<Rightarrow> 'a option \<Rightarrow> 'a option" where
  "js_max a b = (case a of None \<Rightarrow> None | Some x \<Rightarrow> (case b of None \<Rightarrow> None | Some y \<Rightarrow> Some (max x y)))"

text \<open>
  \<^verbatim>\<open>value.split(":")\<close>: the pieces between the colons; a string without a colon is its
  own single piece.
\<close>

fun split_colon :: "string \<Rightarrow> string list" where
  "split_colon [] = [[]]"
| "split_colon (c # cs) =
     (if c = CHR '':'' then [] # split_colon cs
      else (case split_colon cs of [] \<Rightarrow> [[c]] | p # ps \<Rightarrow> (c # p) # ps))"

text \<open>
  \<^verbatim>\<open>parseInt(v, 10)\<close>: leading white space is skipped (the ASCII white space is
  modelled), then an optional sign, then the longest run of decimal digits; \<^verbatim>\<open>NaN\<close> when
  that run is empty.
\<close>

definition isWhiteSpace :: "char \<Rightarrow> bool" where
  "isWhiteSpace c = (c \<in> set [CHR 0x09, CHR 0x0A, CHR 0x0B, CHR 0x0C, CHR 0x0D, CHR 0x20])"

definition isDigit :: "char \<Rightarrow> bool" where
  "isDigit c = (48 \<le> (of_char c :: nat) \<and> (of_char c :: nat) \<le> 57)"

definition digitValue :: "char \<Rightarrow> int" where
  "digitValue c = int (of_char c) - 48"

definition parseInt10 :: "string \<Rightarrow> int option" where
  "parseInt10 v =
     (let s = dropWhile isWhiteSpace v;
          neg = (case s of [] \<Rightarrow> False | c # _ \<Rightarrow> c = CHR ''-'');
          r = (case s of [] \<Rightarrow> [] | c # cs \<Rightarrow> if c = CHR ''-'' \<or> c = CHR ''+'' then cs else s);
          ds = takeWhile isDigit r
      in if ds = [] then None
         else Some ((if neg then - 1 else 1) * foldl (\<lambda>a c. a * 10 + digitValue c) 0 ds))"

text \<open>\<^verbatim>\<open>s.toUpperCase()\<close> on the ASCII letters, and \<^verbatim>\<open>s.includes(sub)\<close>.\<close>

definition toUpperCase :: "string \<Rightarrow> string" where
  "toUpperCase s =
     map (\<lambda>c. if 97 \<le> (of_char c :: nat) \<and> (of_char c :: nat) \<le> 122
               then char_of ((of_char c :: nat) - 32) else c) s"

fun includesStr :: "string \<Rightarrow> string \<Rightarrow> bool" where
  "includesStr [] sub = (sub = [])"
| "includesStr (c # cs) sub = (take (length sub) (c # cs) = sub \<or> includesStr cs sub)"

subsection \<open>The catalogue\<close>

text \<open>\<^verbatim>\<open>NAME_US_PRE\<close>: the name of the US pre-market session, the literal U+7F8E U+80A1 U+76D8 U+524D.\<close>

definition NAME_US_PRE :: string where
  "NAME_US_PRE =
     [CHR 0xE7, CHR 0xBE, CHR 0x8E, CHR 0xE8, CHR 0x82, CHR 0xA1,
      CHR 0xE7, CHR 0x9B, CHR 0x98, CHR 0xE5, CHR 0x89, CHR 0x8D]"

text \<open>\<^verbatim>\<open>NAME_US_REGULAR\<close>: the name of the US regular session, the literal U+7F8E U+80A1 U+76D8 U+4E2D.\<close>

definition NAME_US_REGULAR :: string where
  "NAME_US_REGULAR =
     [CHR 0xE7, CHR 0xBE, CHR 0x8E, CHR 0xE8, CHR 0x82, CHR 0xA1,
      CHR 0xE7, CHR 0x9B, CHR 0x98, CHR 0xE4, CHR 0xB8, CHR 0xAD]"

text \<open>\<^verbatim>\<open>NAME_US_AFTER\<close>: the name of the US after-hours session, the literal U+7F8E U+80A1 U+76D8 U+540E.\<close>

definition NAME_US_AFTER :: string where
  "NAME_US_AFTER =
     [CHR 0xE7, CHR 0xBE, CHR 0x8E, CHR 0xE8, CHR 0x82, CHR 0xA1,
      CHR 0xE7, CHR 0x9B, CHR 0x98, CHR 0xE5, CHR 0x90, CHR 0x8E]"

text \<open>\<^verbatim>\<open>NAME_US_OVERNIGHT\<close>: the name of the US overnight session, the literal U+7F8E U+80A1 U+591C U+76D8.\<close>

definition NAME_US_OVERNIGHT :: string where
  "NAME_US_OVERNIGHT =
     [CHR 0xE7, CHR 0xBE, CHR 0x8E, CHR 0xE8, CHR 0x82, CHR 0xA1,
      CHR 0xE5, CHR 0xA4, CHR 0x9C, CHR 0xE7, CHR 0x9B, CHR 0x98]"

text \<open>\<^verbatim>\<open>NAME_HK_REGULAR\<close>: the name of the HK regular session, the literal U+6E2F U+80A1 U+76D8 U+4E2D.\<close>

definition NAME_HK_REGULAR :: string where
  "NAME_HK_REGULAR =
     [CHR 0xE6, CHR 0xB8, CHR 0xAF, CHR 0xE8, CHR 0x82, CHR 0xA1,
      CHR 0xE7, CHR 0x9B, CHR 0x98, CHR 0xE4, CHR 0xB8, CHR 0xAD]"

text \<open>\<^verbatim>\<open>NAME_HK_EVENING\<close>: the name of the HK evening session, the literal U+6E2F U+80A1 U+591C U+76D8.\<close>

definition NAME_HK_EVENING :: string where
  "NAME_HK_EVENING =
     [CHR 0xE6, CHR 0xB8, CHR 0xAF, CHR 0xE8, CHR 0x82, CHR 0xA1,
      CHR 0xE5, CHR 0xA4, CHR 0x9C, CHR 0xE7, CHR 0x9B, CHR 0x98]"

text \<open>\<^verbatim>\<open>DESC_US_PRE\<close>: the description of the US pre-market session, the literal U+5E38 U+89C4 U+4EA4 U+6613 U+65E5 U+524D U+7684 U+5EF6 U+957F U+65F6 U+6BB5 U+FF0C U+5141 U+8BB8 U+6302 U+5355 U+4E0E U+64AE U+5408 U+3002.\<close>

definition DESC_US_PRE :: string where
  "DESC_US_PRE =
     [CHR 0xE5, CHR 0xB8, CHR 0xB8, CHR 0xE8, CHR 0xA7, CHR 0x84,
      CHR 0xE4, CHR 0xBA, CHR 0xA4, CHR 0xE6, CHR 0x98, CHR 0x93,
      CHR 0xE6, CHR 0x97, CHR 0xA5, CHR 0xE5, CHR 0x89, CHR 0x8D,
      CHR 0xE7, CHR 0x9A, CHR 0x84, CHR 0xE5, CHR 0xBB, CHR 0xB6,
      CHR 0xE9, CHR 0x95, CHR 0xBF, CHR 0xE6, CHR 0x97, CHR 0xB6,
      CHR 0xE6, CHR 0xAE, CHR 0xB5, CHR 0xEF, CHR 0xBC, CHR 0x8C,
      CHR 0xE5, CHR 0x85, CHR 0x81, CHR 0xE8, CHR 0xAE, CHR 0xB8,
      CHR 0xE6, CHR 0x8C, CHR 0x82, CHR 0xE5, CHR 0x8D, CHR 0x95,
      CHR 0xE4, CHR 0xB8, CHR 0x8E, CHR 0xE6, CHR 0x92, CHR 0xAE,
      CHR 0xE5, CHR 0x90, CHR 0x88, CHR 0xE3, CHR 0x80, CHR 0x82]"

text \<open>\<^verbatim>\<open>DESC_US_REGULAR\<close>: the description of the US regular session, the literal U+7EBD U+4EA4 U+6240 U+4E0E U+7EB3 U+65AF U+8FBE U+514B U+7684 U+6B63 U+5E38 U+5F00 U+76D8 U+65F6 U+6BB5 U+3002.\<close>

definition DESC_US_REGULAR :: string where
  "DESC_US_REGULAR =
     [CHR 0xE7, CHR 0xBA, CHR 0xBD, CHR 0xE4, CHR 0xBA, CHR 0xA4,
      CHR 0xE6, CHR 0x89, CHR 0x80, CHR 0xE4, CHR 0xB8, CHR 0x8E,
      CHR 0xE7, CHR 0xBA, CHR 0xB3, CHR 0xE6, CHR 0x96, CHR 0xAF,
      CHR 0xE8, CHR 0xBE, CHR 0xBE, CHR 0xE5, CHR 0x85, CHR 0x8B,
      CHR 0xE7, CHR 0x9A, CHR 0x84, CHR 0xE6, CHR 0xAD, CHR 0xA3,
      CHR 0xE5, CHR 0xB8, CHR 0xB8, CHR 0xE5, CHR 0xBC, CHR 0x80,
      CHR 0xE7, CHR 0x9B, CHR 0x98, CHR 0xE6, CHR 0x97, CHR 0xB6,
      CHR 0xE6, CHR 0xAE, CHR 0xB5, CHR 0xE3, CHR 0x80, CHR 0x82]"

text \<open>\<^verbatim>\<open>DESC_US_AFTER\<close>: the description of the US after-hours session, the literal U+7F8E U+80A1 U+6536 U+76D8 U+540E U+7684 U+5EF6 U+957F U+65F6 U+6BB5 U+FF0C U+901A U+5E38 U+6210 U+4EA4 U+91CF U+8F83 U+4F4E U+3002.\<close>

definition DESC_US_AFTER :: string where
  "DESC_US_AFTER =
     [CHR 0xE7, CHR 0xBE, CHR 0x8E, CHR 0xE8, CHR 0x82, CHR 0xA1,
      CHR 0xE6, CHR 0x94, CHR 0xB6, CHR 0xE7, CHR 0x9B, CHR 0x98,
      CHR 0xE5, CHR 0x90, CHR 0x8E, CHR 0xE7, CHR 0x9A, CHR 0x84,
      CHR 0xE5, CHR 0xBB, CHR 0xB6, CHR 0xE9, CHR 0x95, CHR 0xBF,
      CHR 0xE6, CHR 0x97, CHR 0xB6, CHR 0xE6, CHR 0xAE, CHR 0xB5,
      CHR 0xEF, CHR 0xBC, CHR 0x8C, CHR 0xE9, CHR 0x80, CHR 0x9A,
      CHR 0xE5, CHR 0xB8, CHR 0xB8, CHR 0xE6, CHR 0x88, CHR 0x90,
      CHR 0xE4, CHR 0xBA, CHR 0xA4, CHR 0xE9, CHR 0x87, CHR 0x8F,
      CHR 0xE8, CHR 0xBE, CHR 0x83, CHR 0xE4, CHR 0xBD, CHR 0x8E,
      CHR 0xE3, CHR 0x80, CHR 0x82]"

text \<open>\<^verbatim>\<open>DESC_US_OVERNIGHT\<close>: the description of the US overnight session, the literal U+90E8 U+5206 U+5238 U+5546 U+63D0 U+4F9B U+7684 U+9694 U+591C U+4EA4 U+6613 U+65F6 U+6BB5 U+FF0C U+8DE8 U+8D8A U+5348 U+591C U+3002.\<close>

definition DESC_US_OVERNIGHT :: string where
  "DESC_US_OVERNIGHT =
     [CHR 0xE9, CHR 0x83, CHR 0xA8, CHR 0xE5, CHR 0x88, CHR 0x86,
      CHR 0xE5, CHR 0x88, CHR 0xB8, CHR 0xE5, CHR 0x95, CHR 0x86,
      CHR 0xE6, CHR 0x8F, CHR 0x90, CHR 0xE4, CHR 0xBE, CHR 0x9B,
      CHR 0xE7, CHR 0x9A, CHR 0x84, CHR 0xE9, CHR 0x9A, CHR 0x94,
      CHR 0xE5, CHR 0xA4, CHR 0x9C, CHR 0xE4, CHR 0xBA, CHR 0xA4,
      CHR 0xE6, CHR 0x98, CHR 0x93, CHR 0xE6, CHR 0x97, CHR 0xB6,
      CHR 0xE6, CHR 0xAE, CHR 0xB5, CHR 0xEF, CHR 0xBC, CHR 0x8C,
      CHR 0xE8, CHR 0xB7, CHR 0xA8, CHR 0xE8, CHR 0xB6, CHR 0x8A,
      CHR 0xE5, CHR 0x8D, CHR 0x88, CHR 0xE5, CHR 0xA4, CHR 0x9C,
      CHR 0xE3, CHR 0x80, CHR 0x82]"

text \<open>\<^verbatim>\<open>DESC_HK_REGULAR\<close>: the description of the HK regular session, the literal U+9999 U+6E2F U+4EA4 U+6613 U+6240 U+7684 U+5E38 U+89C4 U+65E5 U+95F4 U+4EA4 U+6613 U+FF0C U+5348 U+95F4 U+6709 U+4E00 U+5C0F U+65F6 U+4F11 U+5E02 U+3002.\<close>

definition DESC_HK_REGULAR :: string where
  "DESC_HK_REGULAR =
     [CHR 0xE9, CHR 0xA6, CHR 0x99, CHR 0xE6, CHR 0xB8, CHR 0xAF,
      CHR 0xE4, CHR 0xBA, CHR 0xA4, CHR 0xE6, CHR 0x98, CHR 0x93,
      CHR 0xE6, CHR 0x89, CHR 0x80, CHR 0xE7, CHR 0x9A, CHR 0x84,
      CHR 0xE5, CHR 0xB8, CHR 0xB8, CHR 0xE8, CHR 0xA7, CHR 0x84,
      CHR 0xE6, CHR 0x97, CHR 0xA5, CHR 0xE9, CHR 0x97, CHR 0xB4,
      CHR 0xE4, CHR 0xBA, CHR 0xA4, CHR 0xE6, CHR 0x98, CHR 0x93,
      CHR 0xEF, CHR 0xBC, CHR 0x8C, CHR 0xE5, CHR 0x8D, CHR 0x88,
      CHR 0xE9, CHR 0x97, CHR 0xB4, CHR 0xE6, CHR 0x9C, CHR 0x89,
      CHR 0xE4, CHR 0xB8, CHR 0x80, CHR 0xE5, CHR 0xB0, CHR 0x8F,
      CHR 0xE6, CHR 0x97, CHR 0xB6, CHR 0xE4, CHR 0xBC, CHR 0x91,
      CHR 0xE5, CHR 0xB8, CHR 0x82, CHR 0xE3, CHR 0x80, CHR 0x82]"

text \<open>\<^verbatim>\<open>DESC_HK_EVENING\<close>: the description of the HK evening session, the literal U+6E2F U+80A1 U+884D U+751F U+54C1 U+53CA U+90E8 U+5206 U+54C1 U+79CD U+7684 U+591C U+95F4 U+4EA4 U+6613 U+65F6 U+6BB5 U+3002.\<close>

definition DESC_HK_EVENING :: string where
  "DESC_HK_EVENING =
     [CHR 0xE6, CHR 0xB8, CHR 0xAF, CHR 0xE8, CHR 0x82, CHR 0xA1,
      CHR 0xE8, CHR 0xA1, CHR 0x8D, CHR 0xE7, CHR 0x94, CHR 0x9F,
      CHR 0xE5, CHR 0x93, CHR 0x81, CHR 0xE5, CHR 0x8F, CHR 0x8A,
      CHR 0xE9, CHR 0x83, CHR 0xA8, CHR 0xE5, CHR 0x88, CHR 0x86,
      CHR 0xE5, CHR 0x93, CHR 0x81, CHR 0xE7, CHR 0xA7, CHR 0x8D,
      CHR 0xE7, CHR 0x9A, CHR 0x84, CHR 0xE5, CHR 0xA4, CHR 0x9C,
      CHR 0xE9, CHR 0x97, CHR 0xB4, CHR 0xE4, CHR 0xBA, CHR 0xA4,
      CHR 0xE6, CHR 0x98, CHR 0x93, CHR 0xE6, CHR 0x97, CHR 0xB6,
      CHR 0xE6, CHR 0xAE, CHR 0xB5, CHR 0xE3, CHR 0x80, CHR 0x82]"

text \<open>\<^verbatim>\<open>LABEL_UNKNOWN\<close>: the label returned for a missing definition (unknown regime), the literal U+672A U+77E5 U+65F6 U+5236.\<close>

definition LABEL_UNKNOWN :: string where
  "LABEL_UNKNOWN =
     [CHR 0xE6, CHR 0x9C, CHR 0xAA, CHR 0xE7, CHR 0x9F, CHR 0xA5,
      CHR 0xE6, CHR 0x97, CHR 0xB6, CHR 0xE5, CHR 0x88, CHR 0xB6]"

text \<open>\<^verbatim>\<open>LABEL_NO_DST\<close>: the fixed label of a zone without daylight saving, the literal U+6807 U+51C6 U+65F6 U+95F4 U+FF08 U+65E0 U+590F U+4EE4 U+65F6 U+FF09.\<close>

definition LABEL_NO_DST :: string where
  "LABEL_NO_DST =
     [CHR 0xE6, CHR 0xA0, CHR 0x87, CHR 0xE5, CHR 0x87, CHR 0x86,
      CHR 0xE6, CHR 0x97, CHR 0xB6, CHR 0xE9, CHR 0x97, CHR 0xB4,
      CHR 0xEF, CHR 0xBC, CHR 0x88, CHR 0xE6, CHR 0x97, CHR 0xA0,
      CHR 0xE5, CHR 0xA4, CHR 0x8F, CHR 0xE4, CHR 0xBB, CHR 0xA4,
      CHR 0xE6, CHR 0x97, CHR 0xB6, CHR 0xEF, CHR 0xBC, CHR 0x89]"

text \<open>\<^verbatim>\<open>LABEL_DST\<close>: the daylight label, the literal U+590F U+4EE4 U+65F6 U+0020 U+0028 U+0044 U+0053 U+0054 U+0029.\<close>

definition LABEL_DST :: string where
  "LABEL_DST =
     [CHR 0xE5, CHR 0xA4, CHR 0x8F, CHR 0xE4, CHR 0xBB, CHR 0xA4,
      CHR 0xE6, CHR 0x97, CHR 0xB6] @
     '' (DST)''"

text \<open>\<^verbatim>\<open>LABEL_STANDARD\<close>: the standard (winter) label, the literal U+51AC U+4EE4 U+65F6 U+0020 U+0028 U+6807 U+51C6 U+65F6 U+95F4 U+0029.\<close>

definition LABEL_STANDARD :: string where
  "LABEL_STANDARD =
     [CHR 0xE5, CHR 0x86, CHR 0xAC, CHR 0xE4, CHR 0xBB, CHR 0xA4,
      CHR 0xE6, CHR 0x97, CHR 0xB6] @
     '' ('' @
     [CHR 0xE6, CHR 0xA0, CHR 0x87, CHR 0xE5, CHR 0x87, CHR 0x86,
      CHR 0xE6, CHR 0x97, CHR 0xB6, CHR 0xE9, CHR 0x97, CHR 0xB4] @
     '')''"

text \<open>The six entries of the array literal \<^verbatim>\<open>SESSION_DEFINITIONS\<close>, in its order.\<close>

definition usPreMarket :: TradingSessionDefinition where
  "usPreMarket =
     \<lparr>name = NAME_US_PRE, market = Us, timeZone = ''America/New_York'',
      windows = [\<lparr>start = ''04:00'', end' = ''09:30''\<rparr>],
      supportsDst = None, description = Some DESC_US_PRE\<rparr>"

definition usRegular :: TradingSessionDefinition where
  "usRegular =
     \<lparr>name = NAME_US_REGULAR, market = Us, timeZone = ''America/New_York'',
      windows = [\<lparr>start = ''09:30'', end' = ''16:00''\<rparr>],
      supportsDst = None, description = Some DESC_US_REGULAR\<rparr>"

definition usAfterHours :: TradingSessionDefinition where
  "usAfterHours =
     \<lparr>name = NAME_US_AFTER, market = Us, timeZone = ''America/New_York'',
      windows = [\<lparr>start = ''16:00'', end' = ''20:00''\<rparr>],
      supportsDst = None, description = Some DESC_US_AFTER\<rparr>"

definition usOvernight :: TradingSessionDefinition where
  "usOvernight =
     \<lparr>name = NAME_US_OVERNIGHT, market = Us, timeZone = ''America/New_York'',
      windows = [\<lparr>start = ''20:00'', end' = ''04:00''\<rparr>],
      supportsDst = None, description = Some DESC_US_OVERNIGHT\<rparr>"

definition hkRegular :: TradingSessionDefinition where
  "hkRegular =
     \<lparr>name = NAME_HK_REGULAR, market = Hk, timeZone = ''Asia/Hong_Kong'',
      windows = [\<lparr>start = ''09:30'', end' = ''12:00''\<rparr>,
                 \<lparr>start = ''13:00'', end' = ''16:00''\<rparr>],
      supportsDst = Some False, description = Some DESC_HK_REGULAR\<rparr>"

definition hkEvening :: TradingSessionDefinition where
  "hkEvening =
     \<lparr>name = NAME_HK_EVENING, market = Hk, timeZone = ''Asia/Hong_Kong'',
      windows = [\<lparr>start = ''17:15'', end' = ''03:00''\<rparr>],
      supportsDst = Some False, description = Some DESC_HK_EVENING\<rparr>"

definition SESSION_DEFINITIONS :: "TradingSessionDefinition list" where
  "SESSION_DEFINITIONS =
     [usPreMarket, usRegular, usAfterHours, usOvernight, hkRegular, hkEvening]"

definition US_SESSION_ORDER :: "string list" where
  "US_SESSION_ORDER = [NAME_US_PRE, NAME_US_REGULAR, NAME_US_AFTER, NAME_US_OVERNIGHT]"

definition HK_SESSION_ORDER :: "string list" where
  "HK_SESSION_ORDER = [NAME_HK_REGULAR, NAME_HK_EVENING]"

subsection \<open>The window test\<close>

text \<open>
  \<^verbatim>\<open>timeStringToMinutes\<close>: the first two pieces of the string are parsed, a missing
  piece is \<^verbatim>\<open>undefined\<close> and parses to \<^verbatim>\<open>NaN\<close>, and arithmetic on \<^verbatim>\<open>NaN\<close> is
  \<^verbatim>\<open>NaN\<close>.
\<close>

definition timeStringToMinutes :: "string \<Rightarrow> int option" where
  "timeStringToMinutes val =
     (case map parseInt10 (split_colon val) of
        hour # minute # _ \<Rightarrow>
          (case hour of None \<Rightarrow> None
           | Some h \<Rightarrow> (case minute of None \<Rightarrow> None | Some m \<Rightarrow> Some (h * 60 + m)))
      | _ \<Rightarrow> None)"

definition getMinutesInTimeZone :: "host \<Rightarrow> Date \<Rightarrow> string \<Rightarrow> int" where
  "getMinutesInTimeZone h date tz = int (hourPart h date tz) * 60 + int (minutePart h date tz)"

text \<open>The callback that \<^verbatim>\<open>isWithinWindow\<close> hands to \<^verbatim>\<open>windows.some\<close>.\<close>

definition withinWindow :: "int \<Rightarrow> TradingWindow \<Rightarrow> bool" where
  "withinWindow currentMinutes window =
     (let s = timeStringToMinutes (start window);
          e = timeStringToMinutes (end' window)
      in if js_le s e then js_ge (Some currentMinutes) s \<and> js_lt (Some currentMinutes) e
         else js_ge (Some currentMinutes) s \<or> js_lt (Some currentMinutes) e)"

definition isWithinWindow :: "host \<Rightarrow> Date \<Rightarrow> TradingSessionDefinition \<Rightarrow> bool" where
  "isWithinWindow h date defn =
     (let currentMinutes = getMinutesInTimeZone h date (timeZone defn)
      in list_ex (withinWindow currentMinutes) (windows defn))"

subsection \<open>The regime label\<close>

definition getTimeZoneOffsetMinutes :: "host \<Rightarrow> Date \<Rightarrow> string \<Rightarrow> rat option" where
  "getTimeZoneOffsetMinutes h date tz =
     (case localizedTime h date tz of
        None \<Rightarrow> None
      | Some localized \<Rightarrow> Some (of_int (date - localized) / 60000))"

definition computeDstLabel :: "host \<Rightarrow> TradingSessionDefinition option \<Rightarrow> Date \<Rightarrow> string" where
  "computeDstLabel h defn date =
     (case defn of
        None \<Rightarrow> LABEL_UNKNOWN
      | Some d \<Rightarrow>
          if supportsDst d = Some False then LABEL_NO_DST
          else
            let tzNamePart = timeZoneName h date (timeZone d);
                upper = (case tzNamePart of None \<Rightarrow> None
                         | Some p \<Rightarrow> if p = [] then None else Some (toUpperCase p))
            in if (case upper of None \<Rightarrow> False | Some u \<Rightarrow> includesStr u ''DT'')
               then LABEL_DST
               else if (case upper of None \<Rightarrow> False
                        | Some u \<Rightarrow> includesStr u ''ST'' \<or> includesStr u ''STANDARD'')
               then LABEL_STANDARD
               else
                 let year = getUTCFullYear h date;
                     january = DateUTC h year 0 1;
                     july = DateUTC h year 6 1;
                     currentOffset = getTimeZoneOffsetMinutes h date (timeZone d);
                     januaryOffset = getTimeZoneOffsetMinutes h january (timeZone d);
                     julyOffset = getTimeZoneOffsetMinutes h july (timeZone d);
                     standardOffset = js_max januaryOffset julyOffset
                 in if js_lt currentOffset standardOffset then LABEL_DST else LABEL_STANDARD)"

definition formatLocalTime :: "host \<Rightarrow> Date \<Rightarrow> string \<Rightarrow> string" where
  "formatLocalTime h date tz = formatLocal h date tz"

subsection \<open>Snapshots and listing\<close>

text \<open>
  Both snapshot functions build their list of definitions with
  \<^verbatim>\<open>ORDER.map((name) => SESSION_DEFINITIONS.find((def) => def.name === name)).filter(Boolean)\<close>
  and pick the current session with \<^verbatim>\<open>definitions.find(...) ?? null\<close>; the two
  expressions are \<open>orderedDefinitions\<close> and \<open>findCurrent\<close>, the list being a parameter
  of the second.
\<close>

definition orderedDefinitions :: "string list \<Rightarrow> TradingSessionDefinition list \<Rightarrow> TradingSessionDefinition list" where
  "orderedDefinitions order defs = List.map_filter (\<lambda>n. find (\<lambda>defn. name defn = n) defs) order"

definition findCurrent :: "host \<Rightarrow> Date \<Rightarrow> TradingSessionDefinition list \<Rightarrow> TradingSessionDefinition option" where
  "findCurrent h date definitions = find (\<lambda>defn. isWithinWindow h date defn) definitions"

definition getUsSessionSnapshot :: "host \<Rightarrow> Date \<Rightarrow> SessionSnapshot" where
  "getUsSessionSnapshot h date =
     (let definitions = orderedDefinitions US_SESSION_ORDER SESSION_DEFINITIONS
      in \<lparr>current = findCurrent h date definitions,
          localTime = formatLocalTime h date ''America/New_York'',
          dstLabel = computeDstLabel h (case definitions of [] \<Rightarrow> None | d # _ \<Rightarrow> Some d) date\<rparr>)"

definition getHkSessionSnapshot :: "host \<Rightarrow> Date \<Rightarrow> SessionSnapshot" where
  "getHkSessionSnapshot h date =
     (let definitions = orderedDefinitions HK_SESSION_ORDER SESSION_DEFINITIONS
      in \<lparr>current = findCurrent h date definitions,
          localTime = formatLocalTime h date ''Asia/Hong_Kong'',
          dstLabel = computeDstLabel h (case definitions of [] \<Rightarrow> None | d # _ \<Rightarrow> Some d) date\<rparr>)"

definition listSessionsByMarket :: "Market \<Rightarrow> TradingSessionDefinition list" where
  "listSessionsByMarket m = filter (\<lambda>defn. market defn = m) SESSION_DEFINITIONS"

subsection \<open>A concrete runtime\<close>

text \<open>
  A runtime to evaluate the functions on: its system zone is UTC, and it knows the two
  zones of the catalogue with their rules of 2024 (New York on daylight time from
  2024-03-10 07:00 UTC to 2024-11-03 06:00 UTC, Hong Kong always eight hours ahead).
  Dates are computed from the day count of the proleptic Gregorian calendar.
\<close>

definition utcYearMonthDay :: "Date \<Rightarrow> int \<times> int \<times> int" where
  "utcYearMonthDay t =
     (let z = t div 86400000 + 719468;
          era = z div 146097;
          doe = z mod 146097;
          yoe = (doe - doe div 1460 + doe div 36524 - doe div 146096) div 365;
          doy = doe - (365 * yoe + yoe div 4 - yoe div 100);
          mp = (5 * doy + 2) div 153;
          d = doy - (153 * mp + 2) div 5 + 1;
          m = (if mp < 10 then mp + 3 else mp - 9)
      in (yoe + era * 400 + (if m \<le> 2 then 1 else 0), m, d))"

definition utcDate :: "int \<Rightarrow> int \<Rightarrow> int \<Rightarrow> Date" where
  "utcDate year month day =
     (let yr = (if 0 \<le> year \<and> year \<le> 99 then 1900 + year else year);
          m = month + 1;
          y = (if m \<le> 2 then yr - 1 else yr);
          era = y div 400;
          yoe = y mod 400;
          doy = (153 * (if m > 2 then m - 3 else m + 9) + 2) div 5 + day - 1;
          doe = yoe * 365 + yoe div 4 - yoe div 100 + doy
      in (era * 146097 + doe - 719468) * 86400000)"

definition zoneShift :: "Date \<Rightarrow> string \<Rightarrow> int" where
  "zoneShift t tz =
     (if tz = ''America/New_York''
      then (if 1710054000000 \<le> t \<and> t < 1730613600000 then - 240 else - 300)
      else if tz = ''Asia/Hong_Kong'' then 480 else 0)"

definition twoDigits :: "int \<Rightarrow> string" where
  "twoDigits n = [char_of (48 + n div 10 mod 10), char_of (48 + n mod 10)]"

definition utcHourPart :: "Date \<Rightarrow> string \<Rightarrow> nat" where
  "utcHourPart t tz = nat ((t div 60000 + zoneShift t tz) div 60 mod 24)"

definition utcMinutePart :: "Date \<Rightarrow> string \<Rightarrow> nat" where
  "utcMinutePart t tz = nat ((t div 60000 + zoneShift t tz) mod 60)"

definition utcTimeZoneName :: "Date \<Rightarrow> string \<Rightarrow> string option" where
  "utcTimeZoneName t tz =
     (if tz = ''America/New_York''
      then Some (if zoneShift t tz = - 240 then ''EDT'' else ''EST'')
      else if tz = ''Asia/Hong_Kong'' then Some ''GMT+8'' else Some ''UTC'')"

definition utcLocalizedTime :: "Date \<Rightarrow> string \<Rightarrow> int option" where
  "utcLocalizedTime t tz = Some (t div 1000 * 1000 + zoneShift t tz * 60000)"

definition utcFullYear :: "Date \<Rightarrow> int" where
  "utcFullYear t = fst (utcYearMonthDay t)"

definition utcFormatLocal :: "Date \<Rightarrow> string \<Rightarrow> string" where
  "utcFormatLocal t tz =
     (let l = t + zoneShift t tz * 60000;
          md = snd (utcYearMonthDay l)
      in twoDigits (fst md) @ ''/'' @ twoDigits (snd md) @ '' '' @
         twoDigits (l div 3600000 mod 24) @ '':'' @ twoDigits (l div 60000 mod 60) @ '':'' @
         twoDigits (l div 1000 mod 60))"

definition utcHost :: host where
  "utcHost =
     \<lparr>hourPart = utcHourPart, minutePart = utcMinutePart, timeZoneName = utcTimeZoneName,
      localizedTime = utcLocalizedTime, getUTCFullYear = utcFullYear, DateUTC = utcDate,
      formatLocal = utcFormatLocal\<rparr>"

text \<open>The same runtime without zone abbreviations: the \<^verbatim>\<open>timeZoneName\<close> part is absent.\<close>

definition utcHostNoNames :: host where
  "utcHostNoNames = utcHost\<lparr>timeZoneName := (\<lambda>t tz. None)\<rparr>"

section \<open>Properties\<close>

subsection \<open>Evaluating the catalogue\<close>

lemma minutes_0300: "timeStringToMinutes ''03:00'' = Some 180"
  by code_simp

lemma minutes_0400: "timeStringToMinutes ''04:00'' = Some 240"
  by code_simp

lemma minutes_0930: "timeStringToMinutes ''09:30'' = Some 570"
  by code_simp

lemma minutes_1200: "timeStringToMinutes ''12:00'' = Some 720"
  by code_simp

lemma minutes_1300: "timeStringToMinutes ''13:00'' = Some 780"
  by code_simp

lemma minutes_1600: "timeStringToMinutes ''16:00'' = Some 960"
  by code_simp

lemma minutes_1715: "timeStringToMinutes ''17:15'' = Some 1035"
  by code_simp

lemma minutes_2000: "timeStringToMinutes ''20:00'' = Some 1200"
  by code_simp

lemmas catalogue_minutes =
  minutes_0300 minutes_0400 minutes_0930 minutes_1200 minutes_1300 minutes_1600
  minutes_1715 minutes_2000

lemmas session_names =
  NAME_US_PRE_def NAME_US_REGULAR_def NAME_US_AFTER_def NAME_US_OVERNIGHT_def
  NAME_HK_REGULAR_def NAME_HK_EVENING_def

lemmas session_entries =
  usPreMarket_def usRegular_def usAfterHours_def usOvernight_def hkRegular_def hkEvening_def

lemma us_definitions:
  "orderedDefinitions US_SESSION_ORDER SESSION_DEFINITIONS =
     [usPreMarket, usRegular, usAfterHours, usOvernight]"
  by (simp add: orderedDefinitions_def US_SESSION_ORDER_def SESSION_DEFINITIONS_def
      List.map_filter_def session_entries session_names)

lemma hk_definitions:
  "orderedDefinitions HK_SESSION_ORDER SESSION_DEFINITIONS = [hkRegular, hkEvening]"
  by (simp add: orderedDefinitions_def HK_SESSION_ORDER_def SESSION_DEFINITIONS_def
      List.map_filter_def session_entries session_names)

lemma withinWindow_parsed:
  assumes "timeStringToMinutes (start w) = Some s" and "timeStringToMinutes (end' w) = Some e"
  shows "withinWindow m w = (if s \<le> e then s \<le> m \<and> m < e else s \<le> m \<or> m < e)"
  using assms by (simp add: withinWindow_def js_le_def js_ge_def js_lt_def)

lemma isWithinWindow_some:
  "isWithinWindow h date defn =
     list_ex (withinWindow (getMinutesInTimeZone h date (timeZone defn))) (windows defn)"
  by (simp add: isWithinWindow_def Let_def)

lemma within_usPreMarket:
  "isWithinWindow h date usPreMarket =
     (240 \<le> getMinutesInTimeZone h date ''America/New_York'' \<and>
      getMinutesInTimeZone h date ''America/New_York'' < 570)"
  by (simp add: isWithinWindow_some usPreMarket_def withinWindow_parsed catalogue_minutes)

lemma within_usRegular:
  "isWithinWindow h date usRegular =
     (570 \<le> getMinutesInTimeZone h date ''America/New_York'' \<and>
      getMinutesInTimeZone h date ''America/New_York'' < 960)"
  by (simp add: isWithinWindow_some usRegular_def withinWindow_parsed catalogue_minutes)

lemma within_usAfterHours:
  "isWithinWindow h date usAfterHours =
     (960 \<le> getMinutesInTimeZone h date ''America/New_York'' \<and>
      getMinutesInTimeZone h date ''America/New_York'' < 1200)"
  by (simp add: isWithinWindow_some usAfterHours_def withinWindow_parsed catalogue_minutes)

lemma within_usOvernight:
  "isWithinWindow h date usOvernight =
     (1200 \<le> getMinutesInTimeZone h date ''America/New_York'' \<or>
      getMinutesInTimeZone h date ''America/New_York'' < 240)"
  by (simp add: isWithinWindow_some usOvernight_def withinWindow_parsed catalogue_minutes)

lemma within_hkRegular:
  "isWithinWindow h date hkRegular =
     (570 \<le> getMinutesInTimeZone h date ''Asia/Hong_Kong'' \<and>
      getMinutesInTimeZone h date ''Asia/Hong_Kong'' < 720 \<or>
      780 \<le> getMinutesInTimeZone h date ''Asia/Hong_Kong'' \<and>
      getMinutesInTimeZone h date ''Asia/Hong_Kong'' < 960)"
  by (simp add: isWithinWindow_some hkRegular_def withinWindow_parsed catalogue_minutes)

lemma within_hkEvening:
  "isWithinWindow h date hkEvening =
     (1035 \<le> getMinutesInTimeZone h date ''Asia/Hong_Kong'' \<or>
      getMinutesInTimeZone h date ''Asia/Hong_Kong'' < 180)"
  by (simp add: isWithinWindow_some hkEvening_def withinWindow_parsed catalogue_minutes)

lemmas within_catalogue =
  within_usPreMarket within_usRegular within_usAfterHours within_usOvernight
  within_hkRegular within_hkEvening

lemma us_current:
  "current (getUsSessionSnapshot h date) =
     findCurrent h date [usPreMarket, usRegular, usAfterHours, usOvernight]"
  by (simp add: getUsSessionSnapshot_def us_definitions)

lemma hk_current:
  "current (getHkSessionSnapshot h date) = findCurrent h date [hkRegular, hkEvening]"
  by (simp add: getHkSessionSnapshot_def hk_definitions)

lemma us_listed:
  "listSessionsByMarket Us = [usPreMarket, usRegular, usAfterHours, usOvernight]"
  by (simp add: listSessionsByMarket_def SESSION_DEFINITIONS_def session_entries)

lemma hk_listed: "listSessionsByMarket Hk = [hkRegular, hkEvening]"
  by (simp add: listSessionsByMarket_def SESSION_DEFINITIONS_def session_entries)

lemma hk_label: "computeDstLabel h (Some hkRegular) date = LABEL_NO_DST"
  by (simp add: computeDstLabel_def hkRegular_def)

subsection \<open>Selecting the current session\<close>

lemma findCurrent_None:
  "findCurrent h date ds = None \<longleftrightarrow> (\<forall>d\<in>set ds. \<not> isWithinWindow h date d)"
  by (auto simp: findCurrent_def find_None_iff)

lemma findCurrent_Some:
  "findCurrent h date ds = Some d \<longleftrightarrow>
     (\<exists>i<length ds. isWithinWindow h date (ds ! i) \<and> d = ds ! i \<and>
        (\<forall>j<i. \<not> isWithinWindow h date (ds ! j)))"
  by (simp add: findCurrent_def find_Some_iff)

lemma findCurrent_active:
  "findCurrent h date ds = Some d \<Longrightarrow> isWithinWindow h date d"
  by (auto simp: findCurrent_Some)

lemma findCurrent_earlier:
  assumes "i < length ds" and "isWithinWindow h date (ds ! i)"
  shows "\<exists>k\<le>i. findCurrent h date ds = Some (ds ! k) \<and> isWithinWindow h date (ds ! k) \<and>
           (\<forall>l<k. \<not> isWithinWindow h date (ds ! l))"
  using assms
proof (induction ds arbitrary: i)
  case Nil
  then show ?case by simp
next
  case (Cons d ds)
  show ?case
  proof (cases "isWithinWindow h date d")
    case True
    then have "findCurrent h date (d # ds) = Some ((d # ds) ! 0)"
      by (simp add: findCurrent_def)
    with True show ?thesis by (intro exI [of _ 0]) simp
  next
    case False
    with Cons.prems obtain i' where i': "i = Suc i'"
      by (cases i) auto
    with Cons.prems have "i' < length ds" "isWithinWindow h date (ds ! i')"
      by simp_all
    from Cons.IH [OF this] obtain k where k: "k \<le> i'"
      "findCurrent h date ds = Some (ds ! k)" "isWithinWindow h date (ds ! k)"
      "\<forall>l<k. \<not> isWithinWindow h date (ds ! l)"
      by blast
    have "\<forall>l<Suc k. \<not> isWithinWindow h date ((d # ds) ! l)"
      using False k(4) by (auto simp: less_Suc_eq_0_disj)
    moreover have "findCurrent h date (d # ds) = Some ((d # ds) ! Suc k)"
      using False k(2) by (simp add: findCurrent_def)
    ultimately show ?thesis
      using k(1,3) i' by (intro exI [of _ "Suc k"]) simp
  qed
qed

subsection \<open>Instants on the concrete runtime\<close>

text \<open>
  2024-01-16 02:00 UTC is 21:00 of the day before in New York, 14:15 UTC is 09:15 and
  21:00 UTC is 16:00 there; 2024-03-12 04:30 UTC is 12:30 in Hong Kong and 04:00 UTC is noon.
\<close>

lemma utc_2100:
  "hourPart utcHost 1705370400000 ''America/New_York'' = 21 \<and>
   minutePart utcHost 1705370400000 ''America/New_York'' = 0"
  by code_simp

lemma utc_0915: "getMinutesInTimeZone utcHost 1705414500000 ''America/New_York'' = 555"
  by code_simp

lemma utc_1600: "getMinutesInTimeZone utcHost 1705438800000 ''America/New_York'' = 960"
  by code_simp

lemma utc_1230:
  "hourPart utcHost 1710217800000 ''Asia/Hong_Kong'' = 12 \<and>
   minutePart utcHost 1710217800000 ''Asia/Hong_Kong'' = 30"
  by code_simp

subsection \<open>Windows\<close>

text \<open>
  C1. A window whose start minute is greater than its end minute contains an instant iff
  the minute of the day of the instant in the zone of the session, the hour times 60 plus
  the minute that the runtime reports there, is at least the start or below the end. The
  overnight window 20:00 to 04:00 of the US market contains 23:59 and 00:01 and contains
  neither 04:00 nor 19:59: the US snapshot of an instant is the overnight session iff
  its minute of the day in New York is at least 20:00 or below 04:00, so it is at 23:59,
  00:01 and 21:00, and it is the pre-market session at 04:00 and the after-hours session
  at 19:59.
\<close>

theorem wrapping_window_contains:
  "getMinutesInTimeZone h date tz = int (hourPart h date tz) * 60 + int (minutePart h date tz) \<and>
   (timeStringToMinutes (start w) = Some s \<and> timeStringToMinutes (end' w) = Some e \<and> e < s \<longrightarrow>
      withinWindow m w = (s \<le> m \<or> m < e) \<and>
      (windows defn = [w] \<longrightarrow>
         isWithinWindow h date defn =
           (s \<le> int (hourPart h date (timeZone defn)) * 60 +
                  int (minutePart h date (timeZone defn)) \<or>
            int (hourPart h date (timeZone defn)) * 60 +
              int (minutePart h date (timeZone defn)) < e))) \<and>
   windows usOvernight = [\<lparr>start = ''20:00'', end' = ''04:00''\<rparr>] \<and>
   map (\<lambda>m. withinWindow m \<lparr>start = ''20:00'', end' = ''04:00''\<rparr>)
     [23 * 60 + 59, 0 * 60 + 1, 4 * 60 + 0, 19 * 60 + 59] = [True, True, False, False] \<and>
   isWithinWindow h date usOvernight =
     (20 * 60 \<le> int (hourPart h date ''America/New_York'') * 60 +
                 int (minutePart h date ''America/New_York'') \<or>
      int (hourPart h date ''America/New_York'') * 60 +
        int (minutePart h date ''America/New_York'') < 4 * 60) \<and>
   (current (getUsSessionSnapshot h date) = Some usOvernight \<longleftrightarrow>
      20 * 60 \<le> int (hourPart h date ''America/New_York'') * 60 +
                 int (minutePart h date ''America/New_York'') \<or>
      int (hourPart h date ''America/New_York'') * 60 +
        int (minutePart h date ''America/New_York'') < 4 * 60) \<and>
   (hourPart h date ''America/New_York'' = 23 \<and> minutePart h date ''America/New_York'' = 59 \<longrightarrow>
      current (getUsSessionSnapshot h date) = Some usOvernight) \<and>
   (hourPart h date ''America/New_York'' = 0 \<and> minutePart h date ''America/New_York'' = 1 \<longrightarrow>
      current (getUsSessionSnapshot h date) = Some usOvernight) \<and>
   (hourPart h date ''America/New_York'' = 4 \<and> minutePart h date ''America/New_York'' = 0 \<longrightarrow>
      \<not> isWithinWindow h date usOvernight \<and>
      current (getUsSessionSnapshot h date) = Some usPreMarket) \<and>
   (hourPart h date ''America/New_York'' = 19 \<and> minutePart h date ''America/New_York'' = 59 \<longrightarrow>
      \<not> isWithinWindow h date usOvernight \<and>
      current (getUsSessionSnapshot h date) = Some usAfterHours) \<and>
   (hourPart h date ''America/New_York'' = 21 \<and> minutePart h date ''America/New_York'' = 0 \<longrightarrow>
      current (getUsSessionSnapshot h date) = Some usOvernight)"
proof -
  let ?M = "int (hourPart h date ''America/New_York'') * 60 +
    int (minutePart h date ''America/New_York'')"
  have minutes: "getMinutesInTimeZone h date z = int (hourPart h date z) * 60 +
      int (minutePart h date z)" for z
    by (simp add: getMinutesInTimeZone_def)
  have general: "withinWindow m w = (s \<le> m \<or> m < e) \<and>
      (windows defn = [w] \<longrightarrow>
         isWithinWindow h date defn =
           (s \<le> int (hourPart h date (timeZone defn)) * 60 +
                  int (minutePart h date (timeZone defn)) \<or>
            int (hourPart h date (timeZone defn)) * 60 +
              int (minutePart h date (timeZone defn)) < e))"
    if "timeStringToMinutes (start w) = Some s \<and> timeStringToMinutes (end' w) = Some e \<and> e < s"
    using that by (simp add: isWithinWindow_some withinWindow_parsed minutes)
  have night: "isWithinWindow h date usOvernight = (20 * 60 \<le> ?M \<or> ?M < 4 * 60)"
    by (simp add: within_usOvernight minutes)
  have others: "usPreMarket \<noteq> usOvernight" "usRegular \<noteq> usOvernight"
    "usAfterHours \<noteq> usOvernight"
    by (simp_all add: session_entries session_names)
  have cur: "current (getUsSessionSnapshot h date) =
      (if 240 \<le> ?M \<and> ?M < 570 then Some usPreMarket
       else if 570 \<le> ?M \<and> ?M < 960 then Some usRegular
       else if 960 \<le> ?M \<and> ?M < 1200 then Some usAfterHours
       else Some usOvernight)"
    by (simp add: us_current findCurrent_def within_catalogue minutes)
  have sel: "current (getUsSessionSnapshot h date) = Some usOvernight \<longleftrightarrow>
      20 * 60 \<le> ?M \<or> ?M < 4 * 60"
    unfolding cur using others by auto
  have at2359: "current (getUsSessionSnapshot h date) = Some usOvernight"
    if "hourPart h date ''America/New_York'' = 23 \<and> minutePart h date ''America/New_York'' = 59"
    using that by (simp add: cur)
  have at0001: "current (getUsSessionSnapshot h date) = Some usOvernight"
    if "hourPart h date ''America/New_York'' = 0 \<and> minutePart h date ''America/New_York'' = 1"
    using that by (simp add: cur)
  have at0400: "\<not> isWithinWindow h date usOvernight \<and>
      current (getUsSessionSnapshot h date) = Some usPreMarket"
    if "hourPart h date ''America/New_York'' = 4 \<and> minutePart h date ''America/New_York'' = 0"
    using that by (simp add: cur night)
  have at1959: "\<not> isWithinWindow h date usOvernight \<and>
      current (getUsSessionSnapshot h date) = Some usAfterHours"
    if "hourPart h date ''America/New_York'' = 19 \<and> minutePart h date ''America/New_York'' = 59"
    using that by (simp add: cur night)
  have at2100: "current (getUsSessionSnapshot h date) = Some usOvernight"
    if "hourPart h date ''America/New_York'' = 21 \<and> minutePart h date ''America/New_York'' = 0"
    using that by (simp add: cur)
  have ws: "windows usOvernight = [\<lparr>start = ''20:00'', end' = ''04:00''\<rparr>]"
    by (simp add: usOvernight_def)
  have tab: "map (\<lambda>m. withinWindow m \<lparr>start = ''20:00'', end' = ''04:00''\<rparr>)
     [23 * 60 + 59, 0 * 60 + 1, 4 * 60 + 0, 19 * 60 + 59] = [True, True, False, False]"
    by (simp add: withinWindow_parsed catalogue_minutes)
  show ?thesis
    using minutes [of tz] general night sel at2359 at0001 at0400 at1959 at2100 ws tab
    by blast
qed

text \<open>
  On the concrete runtime: 2024-01-16 04:59 UTC is 23:59 in New York, inside the
  overnight window; 00:59 UTC is 19:59 there, outside it and in the after-hours session;
  02:00 UTC is 21:00.
\<close>

theorem wrapping_window_contains_witness:
  "timeStringToMinutes ''20:00'' = Some 1200 \<and> timeStringToMinutes ''04:00'' = Some 240 \<and>
   (240 :: int) < 1200 \<and>
   withinWindow 1439 \<lparr>start = ''20:00'', end' = ''04:00''\<rparr> \<and>
   windows usOvernight = [\<lparr>start = ''20:00'', end' = ''04:00''\<rparr>] \<and>
   hourPart utcHost 1705381140000 ''America/New_York'' = 23 \<and>
   minutePart utcHost 1705381140000 ''America/New_York'' = 59 \<and>
   getMinutesInTimeZone utcHost 1705381140000 ''America/New_York'' = 1439 \<and>
   isWithinWindow utcHost 1705381140000 usOvernight \<and>
   current (getUsSessionSnapshot utcHost 1705381140000) = Some usOvernight \<and>
   hourPart utcHost 1705366740000 ''America/New_York'' = 19 \<and>
   minutePart utcHost 1705366740000 ''America/New_York'' = 59 \<and>
   getMinutesInTimeZone utcHost 1705366740000 ''America/New_York'' = 1199 \<and>
   \<not> isWithinWindow utcHost 1705366740000 usOvernight \<and>
   current (getUsSessionSnapshot utcHost 1705366740000) = Some usAfterHours \<and>
   hourPart utcHost 1705370400000 ''America/New_York'' = 21 \<and>
   minutePart utcHost 1705370400000 ''America/New_York'' = 0 \<and>
   isWithinWindow utcHost 1705370400000 usOvernight \<and>
   current (getUsSessionSnapshot utcHost 1705370400000) = Some usOvernight"
proof -
  have tz: "timeZone usOvernight = ''America/New_York''"
    by (simp add: usOvernight_def)
  have p2359: "hourPart utcHost 1705381140000 ''America/New_York'' = 23 \<and>
      minutePart utcHost 1705381140000 ''America/New_York'' = 59"
    by code_simp
  have p1959: "hourPart utcHost 1705366740000 ''America/New_York'' = 19 \<and>
      minutePart utcHost 1705366740000 ''America/New_York'' = 59"
    by code_simp
  note t = wrapping_window_contains [where w = "\<lparr>start = ''20:00'', end' = ''04:00''\<rparr>"
      and s = 1200 and e = 240 and m = 1439 and defn = usOvernight and h = utcHost
      and tz = "''America/New_York''"]
  have a: "getMinutesInTimeZone utcHost 1705381140000 ''America/New_York'' = 1439 \<and>
      isWithinWindow utcHost 1705381140000 usOvernight \<and>
      current (getUsSessionSnapshot utcHost 1705381140000) = Some usOvernight"
    using t [where date = 1705381140000] by (simp add: catalogue_minutes p2359 tz)
  have b: "getMinutesInTimeZone utcHost 1705366740000 ''America/New_York'' = 1199 \<and>
      \<not> isWithinWindow utcHost 1705366740000 usOvernight \<and>
      current (getUsSessionSnapshot utcHost 1705366740000) = Some usAfterHours"
    using t [where date = 1705366740000] by (simp add: catalogue_minutes p1959 tz)
  have c: "isWithinWindow utcHost 1705370400000 usOvernight \<and>
      current (getUsSessionSnapshot utcHost 1705370400000) = Some usOvernight"
    using t [where date = 1705370400000] by (simp add: catalogue_minutes utc_2100 tz)
  have d: "withinWindow 1439 \<lparr>start = ''20:00'', end' = ''04:00''\<rparr> \<and>
      windows usOvernight = [\<lparr>start = ''20:00'', end' = ''04:00''\<rparr>]"
    using t [where date = 1705370400000] by (simp add: catalogue_minutes)
  from a b c d show ?thesis
    by (simp add: catalogue_minutes p2359 p1959 utc_2100)
qed

text \<open>
  C2. A window whose start minute is at most its end minute contains an instant iff the
  minute of the day lies in the half-open interval from start to end. The end minute
  itself is outside: a session with that single window is not selected at it. At 16:00 in
  New York the regular session has ended and the after-hours session is current. The
  minute of the day is the hour times 60 plus the minute that the runtime reports in the
  zone: the regular session is active from 09:30, not yet at 09:29, still at 15:59 and no
  longer at 16:00.
\<close>

theorem plain_window_contains:
  "(timeStringToMinutes (start w) = Some s \<and> timeStringToMinutes (end' w) = Some e \<and> s \<le> e \<longrightarrow>
      withinWindow m w = (s \<le> m \<and> m < e) \<and> \<not> withinWindow e w \<and>
      (windows defn = [w] \<longrightarrow>
         isWithinWindow h date defn =
           (s \<le> getMinutesInTimeZone h date (timeZone defn) \<and>
            getMinutesInTimeZone h date (timeZone defn) < e) \<and>
         (getMinutesInTimeZone h date (timeZone defn) = e \<longrightarrow>
            findCurrent h date definitions \<noteq> Some defn))) \<and>
   (getMinutesInTimeZone h date ''America/New_York'' = 16 * 60 \<longrightarrow>
      \<not> isWithinWindow h date usRegular \<and>
      current (getUsSessionSnapshot h date) = Some usAfterHours) \<and>
   getMinutesInTimeZone h date tz = int (hourPart h date tz) * 60 + int (minutePart h date tz) \<and>
   isWithinWindow h date usRegular =
     (9 * 60 + 30 \<le> int (hourPart h date ''America/New_York'') * 60 +
                     int (minutePart h date ''America/New_York'') \<and>
      int (hourPart h date ''America/New_York'') * 60 +
        int (minutePart h date ''America/New_York'') < 16 * 60) \<and>
   (hourPart h date ''America/New_York'' = 9 \<and> minutePart h date ''America/New_York'' = 29 \<longrightarrow>
      \<not> isWithinWindow h date usRegular \<and>
      current (getUsSessionSnapshot h date) = Some usPreMarket) \<and>
   (hourPart h date ''America/New_York'' = 9 \<and> minutePart h date ''America/New_York'' = 30 \<longrightarrow>
      current (getUsSessionSnapshot h date) = Some usRegular) \<and>
   (hourPart h date ''America/New_York'' = 15 \<and> minutePart h date ''America/New_York'' = 59 \<longrightarrow>
      current (getUsSessionSnapshot h date) = Some usRegular) \<and>
   (hourPart h date ''America/New_York'' = 16 \<and> minutePart h date ''America/New_York'' = 0 \<longrightarrow>
      \<not> isWithinWindow h date usRegular \<and>
      current (getUsSessionSnapshot h date) = Some usAfterHours)"
proof -
  have interval: "(timeStringToMinutes (start w) = Some s \<and> timeStringToMinutes (end' w) = Some e \<and> s \<le> e \<longrightarrow>
        withinWindow m w = (s \<le> m \<and> m < e) \<and> \<not> withinWindow e w \<and>
        (windows defn = [w] \<longrightarrow>
           isWithinWindow h date defn =
             (s \<le> getMinutesInTimeZone h date (timeZone defn) \<and>
              getMinutesInTimeZone h date (timeZone defn) < e) \<and>
           (getMinutesInTimeZone h date (timeZone defn) = e \<longrightarrow>
              findCurrent h date definitions \<noteq> Some defn))) \<and>
     (getMinutesInTimeZone h date ''America/New_York'' = 16 * 60 \<longrightarrow>
        \<not> isWithinWindow h date usRegular \<and>
        current (getUsSessionSnapshot h date) = Some usAfterHours)"
  proof (intro conjI impI)
    assume a: "timeStringToMinutes (start w) = Some s \<and>
      timeStringToMinutes (end' w) = Some e \<and> s \<le> e"
    then show "withinWindow m w = (s \<le> m \<and> m < e)" and "\<not> withinWindow e w"
      by (simp_all add: withinWindow_parsed)
    assume w: "windows defn = [w]"
    with a show in_iff: "isWithinWindow h date defn =
       (s \<le> getMinutesInTimeZone h date (timeZone defn) \<and>
        getMinutesInTimeZone h date (timeZone defn) < e)"
      by (simp add: isWithinWindow_some withinWindow_parsed)
    assume "getMinutesInTimeZone h date (timeZone defn) = e"
    with in_iff have "\<not> isWithinWindow h date defn"
      by simp
    then show "findCurrent h date definitions \<noteq> Some defn"
      using findCurrent_active by blast
  next
    assume m: "getMinutesInTimeZone h date ''America/New_York'' = 16 * 60"
    then show "\<not> isWithinWindow h date usRegular"
      by (simp add: within_catalogue)
    from m show "current (getUsSessionSnapshot h date) = Some usAfterHours"
      by (simp add: us_current findCurrent_def within_catalogue)
  qed
  let ?M = "int (hourPart h date ''America/New_York'') * 60 +
    int (minutePart h date ''America/New_York'')"
  have minutes: "getMinutesInTimeZone h date z = int (hourPart h date z) * 60 +
      int (minutePart h date z)" for z
    by (simp add: getMinutesInTimeZone_def)
  have regular: "isWithinWindow h date usRegular = (9 * 60 + 30 \<le> ?M \<and> ?M < 16 * 60)"
    by (simp add: within_usRegular minutes)
  have cur: "current (getUsSessionSnapshot h date) =
      (if 240 \<le> ?M \<and> ?M < 570 then Some usPreMarket
       else if 570 \<le> ?M \<and> ?M < 960 then Some usRegular
       else if 960 \<le> ?M \<and> ?M < 1200 then Some usAfterHours
       else Some usOvernight)"
    by (simp add: us_current findCurrent_def within_catalogue minutes)
  have at0929: "\<not> isWithinWindow h date usRegular \<and>
      current (getUsSessionSnapshot h date) = Some usPreMarket"
    if "hourPart h date ''America/New_York'' = 9 \<and> minutePart h date ''America/New_York'' = 29"
    using that by (simp add: cur regular)
  have at0930: "current (getUsSessionSnapshot h date) = Some usRegular"
    if "hourPart h date ''America/New_York'' = 9 \<and> minutePart h date ''America/New_York'' = 30"
    using that by (simp add: cur)
  have at1559: "current (getUsSessionSnapshot h date) = Some usRegular"
    if "hourPart h date ''America/New_York'' = 15 \<and> minutePart h date ''America/New_York'' = 59"
    using that by (simp add: cur)
  have at1600: "\<not> isWithinWindow h date usRegular \<and>
      current (getUsSessionSnapshot h date) = Some usAfterHours"
    if "hourPart h date ''America/New_York'' = 16 \<and> minutePart h date ''America/New_York'' = 0"
    using that by (simp add: cur regular)
  show ?thesis
    using interval minutes [of tz] regular at0929 at0930 at1559 at1600
    by blast
qed

theorem plain_window_contains_witness:
  "timeStringToMinutes ''09:30'' = Some 570 \<and> timeStringToMinutes ''16:00'' = Some 960 \<and>
   (570 :: int) \<le> 960 \<and>
   withinWindow 570 \<lparr>start = ''09:30'', end' = ''16:00''\<rparr> \<and>
   \<not> withinWindow 960 \<lparr>start = ''09:30'', end' = ''16:00''\<rparr> \<and>
   windows usRegular = [\<lparr>start = ''09:30'', end' = ''16:00''\<rparr>] \<and>
   getMinutesInTimeZone utcHost 1705438800000 (timeZone usRegular) = 960 \<and>
   \<not> isWithinWindow utcHost 1705438800000 usRegular \<and>
   findCurrent utcHost 1705438800000 [usPreMarket, usRegular, usAfterHours, usOvernight]
     \<noteq> Some usRegular \<and>
   current (getUsSessionSnapshot utcHost 1705438800000) = Some usAfterHours \<and>
   hourPart utcHost 1705438800000 ''America/New_York'' = 16 \<and>
   minutePart utcHost 1705438800000 ''America/New_York'' = 0 \<and>
   getMinutesInTimeZone utcHost 1705438800000 ''America/New_York'' = 16 * 60 \<and>
   hourPart utcHost 1705415400000 ''America/New_York'' = 9 \<and>
   minutePart utcHost 1705415400000 ''America/New_York'' = 30 \<and>
   current (getUsSessionSnapshot utcHost 1705415400000) = Some usRegular"
proof -
  have p1600: "hourPart utcHost 1705438800000 ''America/New_York'' = 16 \<and>
      minutePart utcHost 1705438800000 ''America/New_York'' = 0"
    by code_simp
  have p0930: "hourPart utcHost 1705415400000 ''America/New_York'' = 9 \<and>
      minutePart utcHost 1705415400000 ''America/New_York'' = 30"
    by code_simp
  have half: "current (getUsSessionSnapshot utcHost 1705415400000) = Some usRegular"
    using plain_window_contains [where h = utcHost and date = 1705415400000] p0930
    by simp
  have tz: "timeZone usRegular = ''America/New_York''"
    and ws: "windows usRegular = [\<lparr>start = ''09:30'', end' = ''16:00''\<rparr>]"
    by (simp_all add: usRegular_def)
  show ?thesis
    using plain_window_contains [where w = "\<lparr>start = ''09:30'', end' = ''16:00''\<rparr>"
        and s = 570 and e = 960 and m = 570 and defn = usRegular and h = utcHost
        and date = 1705438800000
        and definitions = "[usPreMarket, usRegular, usAfterHours, usOvernight]"
        and tz = "''America/New_York''"] half
    by (simp add: catalogue_minutes utc_1600 tz ws p1600 p0930)
qed

subsection \<open>Session selection\<close>

text \<open>
  C3. Both markets are classified by going through the definitions of the market in the
  display order (US: pre-market, regular, after-hours, overnight; HK: regular, evening)
  and returning the first one that has a window containing the minute of the day of the
  instant. When two sessions of a list both contain the instant, the result is the first
  active session of the list, which stands at or before the earlier of the two, so the
  later of the two is never returned in place of the earlier one.
\<close>

theorem first_match_in_display_order:
  "current (getUsSessionSnapshot h date) =
     findCurrent h date [usPreMarket, usRegular, usAfterHours, usOvernight] \<and>
   current (getHkSessionSnapshot h date) = findCurrent h date [hkRegular, hkEvening] \<and>
   isWithinWindow h date defn =
     list_ex (withinWindow (getMinutesInTimeZone h date (timeZone defn))) (windows defn) \<and>
   (findCurrent h date definitions = Some defn \<longleftrightarrow>
      (\<exists>i<length definitions. isWithinWindow h date (definitions ! i) \<and>
         defn = definitions ! i \<and> (\<forall>j<i. \<not> isWithinWindow h date (definitions ! j)))) \<and>
   (i < j \<and> j < length definitions \<and> isWithinWindow h date (definitions ! i) \<and>
    isWithinWindow h date (definitions ! j) \<longrightarrow>
      (\<exists>k\<le>i. findCurrent h date definitions = Some (definitions ! k) \<and>
         isWithinWindow h date (definitions ! k) \<and>
         (\<forall>l<k. \<not> isWithinWindow h date (definitions ! l))) \<and>
      (distinct definitions \<longrightarrow> findCurrent h date definitions \<noteq> Some (definitions ! j)))"
proof (intro conjI impI)
  show "current (getUsSessionSnapshot h date) =
      findCurrent h date [usPreMarket, usRegular, usAfterHours, usOvernight]"
    by (rule us_current)
  show "current (getHkSessionSnapshot h date) = findCurrent h date [hkRegular, hkEvening]"
    by (rule hk_current)
  show "isWithinWindow h date defn =
      list_ex (withinWindow (getMinutesInTimeZone h date (timeZone defn))) (windows defn)"
    by (rule isWithinWindow_some)
  show "findCurrent h date definitions = Some defn \<longleftrightarrow>
      (\<exists>i<length definitions. isWithinWindow h date (definitions ! i) \<and>
         defn = definitions ! i \<and> (\<forall>j<i. \<not> isWithinWindow h date (definitions ! j)))"
    by (rule findCurrent_Some)
next
  assume a: "i < j \<and> j < length definitions \<and> isWithinWindow h date (definitions ! i) \<and>
    isWithinWindow h date (definitions ! j)"
  then have "i < length definitions" and "isWithinWindow h date (definitions ! i)"
    by simp_all
  from findCurrent_earlier [OF this]
  show first: "\<exists>k\<le>i. findCurrent h date definitions = Some (definitions ! k) \<and>
      isWithinWindow h date (definitions ! k) \<and>
      (\<forall>l<k. \<not> isWithinWindow h date (definitions ! l))" .
  assume dist: "distinct definitions"
  from first obtain k where k: "k \<le> i" "findCurrent h date definitions = Some (definitions ! k)"
    by blast
  from k(1) a have "k < length definitions" "j < length definitions" "k \<noteq> j"
    by simp_all
  with dist have "definitions ! k \<noteq> definitions ! j"
    by (simp add: nth_eq_iff_index_eq)
  with k(2) show "findCurrent h date definitions \<noteq> Some (definitions ! j)"
    by simp
qed

text \<open>
  The witness is a list of two sessions whose windows overlap: the pre-market session
  and a second session from 09:00 to 16:00. At 09:15 in New York both are active and the
  pre-market session, listed first, is returned.
\<close>

theorem first_match_in_display_order_witness:
  "(0 :: nat) < 1 \<and>
   1 < length [usPreMarket, usRegular\<lparr>windows := [\<lparr>start = ''09:00'', end' = ''16:00''\<rparr>]\<rparr>] \<and>
   isWithinWindow utcHost 1705414500000 usPreMarket \<and>
   isWithinWindow utcHost 1705414500000
     (usRegular\<lparr>windows := [\<lparr>start = ''09:00'', end' = ''16:00''\<rparr>]\<rparr>) \<and>
   distinct [usPreMarket, usRegular\<lparr>windows := [\<lparr>start = ''09:00'', end' = ''16:00''\<rparr>]\<rparr>] \<and>
   findCurrent utcHost 1705414500000
     [usPreMarket, usRegular\<lparr>windows := [\<lparr>start = ''09:00'', end' = ''16:00''\<rparr>]\<rparr>] =
     Some usPreMarket"
proof -
  let ?late = "usRegular\<lparr>windows := [\<lparr>start = ''09:00'', end' = ''16:00''\<rparr>]\<rparr>"
  have pre: "isWithinWindow utcHost 1705414500000 usPreMarket"
    by (simp add: within_catalogue utc_0915)
  have "timeStringToMinutes ''09:00'' = Some 540"
    by code_simp
  then have late: "isWithinWindow utcHost 1705414500000 ?late"
    by (simp add: isWithinWindow_some usRegular_def withinWindow_parsed catalogue_minutes
        utc_0915)
  have dist: "distinct [usPreMarket, ?late]"
    by (simp add: session_entries session_names)
  from first_match_in_display_order [where h = utcHost and date = 1705414500000
      and definitions = "[usPreMarket, ?late]" and i = 0 and j = 1 and defn = usPreMarket]
    pre late dist
  have "\<exists>k\<le>0. findCurrent utcHost 1705414500000 [usPreMarket, ?late] =
      Some ([usPreMarket, ?late] ! k)"
    by simp
  then have "findCurrent utcHost 1705414500000 [usPreMarket, ?late] = Some usPreMarket"
    by simp
  with pre late dist show ?thesis
    by simp
qed

text \<open>
  C8. When no definition of the list has a window containing the instant, the current
  session is absent, and the snapshot still carries the local time and the label. At
  12:30 in Hong Kong, in the lunch gap, the HK snapshot has no current session and the
  fixed label of a zone without daylight saving.
\<close>

theorem closed_market_is_a_result:
  "((\<forall>d\<in>set definitions. \<not> isWithinWindow h date d) \<longrightarrow>
      findCurrent h date definitions = None) \<and>
   current (getUsSessionSnapshot h date) = findCurrent h date (listSessionsByMarket Us) \<and>
   current (getHkSessionSnapshot h date) = findCurrent h date (listSessionsByMarket Hk) \<and>
   localTime (getUsSessionSnapshot h date) = formatLocalTime h date ''America/New_York'' \<and>
   dstLabel (getUsSessionSnapshot h date) = computeDstLabel h (Some usPreMarket) date \<and>
   localTime (getHkSessionSnapshot h date) = formatLocalTime h date ''Asia/Hong_Kong'' \<and>
   dstLabel (getHkSessionSnapshot h date) = computeDstLabel h (Some hkRegular) date \<and>
   (hourPart h date ''Asia/Hong_Kong'' = 12 \<and> minutePart h date ''Asia/Hong_Kong'' = 30 \<longrightarrow>
      getHkSessionSnapshot h date =
        \<lparr>current = None, localTime = formatLocalTime h date ''Asia/Hong_Kong'',
         dstLabel = LABEL_NO_DST\<rparr>)"
proof (intro conjI impI)
  assume "\<forall>d\<in>set definitions. \<not> isWithinWindow h date d"
  then show "findCurrent h date definitions = None"
    by (simp add: findCurrent_None)
next
  show "current (getUsSessionSnapshot h date) = findCurrent h date (listSessionsByMarket Us)"
    by (simp add: us_current us_listed)
  show "current (getHkSessionSnapshot h date) = findCurrent h date (listSessionsByMarket Hk)"
    by (simp add: hk_current hk_listed)
  show "localTime (getUsSessionSnapshot h date) = formatLocalTime h date ''America/New_York''"
    by (simp add: getUsSessionSnapshot_def Let_def)
  show "dstLabel (getUsSessionSnapshot h date) = computeDstLabel h (Some usPreMarket) date"
    by (simp add: getUsSessionSnapshot_def us_definitions)
  show "localTime (getHkSessionSnapshot h date) = formatLocalTime h date ''Asia/Hong_Kong''"
    by (simp add: getHkSessionSnapshot_def Let_def)
  show "dstLabel (getHkSessionSnapshot h date) = computeDstLabel h (Some hkRegular) date"
    by (simp add: getHkSessionSnapshot_def hk_definitions)
next
  assume "hourPart h date ''Asia/Hong_Kong'' = 12 \<and> minutePart h date ''Asia/Hong_Kong'' = 30"
  then have "getMinutesInTimeZone h date ''Asia/Hong_Kong'' = 750"
    by (simp add: getMinutesInTimeZone_def)
  then have "findCurrent h date [hkRegular, hkEvening] = None"
    by (simp add: findCurrent_def within_catalogue)
  then show "getHkSessionSnapshot h date =
      \<lparr>current = None, localTime = formatLocalTime h date ''Asia/Hong_Kong'',
       dstLabel = LABEL_NO_DST\<rparr>"
    by (simp add: getHkSessionSnapshot_def hk_definitions hk_label)
qed

theorem closed_market_is_a_result_witness:
  "listSessionsByMarket Hk = [hkRegular, hkEvening] \<and>
   \<not> isWithinWindow utcHost 1710217800000 hkRegular \<and>
   \<not> isWithinWindow utcHost 1710217800000 hkEvening \<and>
   findCurrent utcHost 1710217800000 (listSessionsByMarket Hk) = None \<and>
   hourPart utcHost 1710217800000 ''Asia/Hong_Kong'' = 12 \<and>
   minutePart utcHost 1710217800000 ''Asia/Hong_Kong'' = 30 \<and>
   getHkSessionSnapshot utcHost 1710217800000 =
     \<lparr>current = None, localTime = ''03/12 12:30:00'', dstLabel = LABEL_NO_DST\<rparr>"
proof -
  have m: "getMinutesInTimeZone utcHost 1710217800000 ''Asia/Hong_Kong'' = 750"
    using utc_1230 by (simp add: getMinutesInTimeZone_def)
  have none: "\<forall>d\<in>set (listSessionsByMarket Hk). \<not> isWithinWindow utcHost 1710217800000 d"
    by (simp add: hk_listed within_catalogue m)
  have fmt: "formatLocalTime utcHost 1710217800000 ''Asia/Hong_Kong'' = ''03/12 12:30:00''"
    by code_simp
  from closed_market_is_a_result [where h = utcHost and date = 1710217800000
      and definitions = "listSessionsByMarket Hk"] none utc_1230 fmt
  show ?thesis
    by (simp add: hk_listed)
qed

text \<open>
  C9. In the shipped catalogue, for each market and every minute count, at most one
  window of all the sessions of the market contains it; a boundary minute such as 09:30
  in New York belongs to the window that starts there only. Hence whichever session of
  the market is active is the one the snapshot returns.
\<close>

theorem shipped_windows_disjoint:
  "length (filter (withinWindow m) (concat (map windows (listSessionsByMarket mk)))) \<le> 1 \<and>
   filter (withinWindow (9 * 60 + 30)) (concat (map windows (listSessionsByMarket Us))) =
     [\<lparr>start = ''09:30'', end' = ''16:00''\<rparr>] \<and>
   (defn \<in> set (listSessionsByMarket mk) \<and> isWithinWindow h date defn \<longrightarrow>
      current (case mk of Us \<Rightarrow> getUsSessionSnapshot h date
               | Hk \<Rightarrow> getHkSessionSnapshot h date) = Some defn)"
proof (intro conjI impI)
  show "length (filter (withinWindow m) (concat (map windows (listSessionsByMarket mk)))) \<le> 1"
  proof (cases mk)
    case Us
    then show ?thesis
      by (simp add: us_listed session_entries withinWindow_parsed catalogue_minutes)
  next
    case Hk
    then show ?thesis
      by (simp add: hk_listed session_entries withinWindow_parsed catalogue_minutes)
  qed
  show "filter (withinWindow (9 * 60 + 30)) (concat (map windows (listSessionsByMarket Us))) =
      [\<lparr>start = ''09:30'', end' = ''16:00''\<rparr>]"
    by (simp add: us_listed session_entries withinWindow_parsed catalogue_minutes)
next
  assume a: "defn \<in> set (listSessionsByMarket mk) \<and> isWithinWindow h date defn"
  show "current (case mk of Us \<Rightarrow> getUsSessionSnapshot h date
      | Hk \<Rightarrow> getHkSessionSnapshot h date) = Some defn"
  proof (cases mk)
    case Us
    with a have "defn \<in> {usPreMarket, usRegular, usAfterHours, usOvernight}"
      by (simp add: us_listed)
    with a Us show ?thesis
      by (auto simp: us_current findCurrent_def within_catalogue)
  next
    case Hk
    with a have "defn \<in> {hkRegular, hkEvening}"
      by (simp add: hk_listed)
    with a Hk show ?thesis
      by (auto simp: hk_current findCurrent_def within_catalogue)
  qed
qed

theorem shipped_windows_disjoint_witness:
  "usOvernight \<in> set (listSessionsByMarket Us) \<and>
   isWithinWindow utcHost 1705370400000 usOvernight \<and>
   current (getUsSessionSnapshot utcHost 1705370400000) = Some usOvernight"
proof -
  have m: "getMinutesInTimeZone utcHost 1705370400000 ''America/New_York'' = 1260"
    using utc_2100 by (simp add: getMinutesInTimeZone_def)
  have a: "usOvernight \<in> set (listSessionsByMarket Us)"
    by (simp add: us_listed)
  have b: "isWithinWindow utcHost 1705370400000 usOvernight"
    by (simp add: within_catalogue m)
  from shipped_windows_disjoint [where mk = Us and defn = usOvernight and h = utcHost
      and date = 1705370400000] a b
  show ?thesis
    by simp
qed

text \<open>
  C10. The US snapshot always has a current session: the four windows of the US market
  cover every minute count, so some session of the market is active at every instant.
\<close>

theorem us_market_never_closed:
  "(\<exists>defn. current (getUsSessionSnapshot h date) = Some defn \<and>
      defn \<in> set (listSessionsByMarket Us) \<and> isWithinWindow h date defn) \<and>
   current (getUsSessionSnapshot h date) \<noteq> None \<and>
   list_ex (withinWindow m) (concat (map windows (listSessionsByMarket Us))) \<and>
   map (\<lambda>defn. map (\<lambda>w. (timeStringToMinutes (start w), timeStringToMinutes (end' w)))
          (windows defn)) (listSessionsByMarket Us) =
     [[(Some (4 * 60), Some (9 * 60 + 30))], [(Some (9 * 60 + 30), Some (16 * 60))],
      [(Some (16 * 60), Some (20 * 60))], [(Some (20 * 60), Some (4 * 60))]]"
proof (intro conjI)
  have cases: "getMinutesInTimeZone h date ''America/New_York'' < 240 \<or>
      240 \<le> getMinutesInTimeZone h date ''America/New_York'' \<and>
        getMinutesInTimeZone h date ''America/New_York'' < 570 \<or>
      570 \<le> getMinutesInTimeZone h date ''America/New_York'' \<and>
        getMinutesInTimeZone h date ''America/New_York'' < 960 \<or>
      960 \<le> getMinutesInTimeZone h date ''America/New_York'' \<and>
        getMinutesInTimeZone h date ''America/New_York'' < 1200 \<or>
      1200 \<le> getMinutesInTimeZone h date ''America/New_York''"
    by linarith
  then show "\<exists>defn. current (getUsSessionSnapshot h date) = Some defn \<and>
      defn \<in> set (listSessionsByMarket Us) \<and> isWithinWindow h date defn"
    by (auto simp: us_current us_listed findCurrent_def within_catalogue)
  then show "current (getUsSessionSnapshot h date) \<noteq> None"
    by auto
  show "list_ex (withinWindow m) (concat (map windows (listSessionsByMarket Us)))"
    by (simp add: us_listed session_entries withinWindow_parsed catalogue_minutes) linarith
  show "map (\<lambda>defn. map (\<lambda>w. (timeStringToMinutes (start w), timeStringToMinutes (end' w)))
          (windows defn)) (listSessionsByMarket Us) =
     [[(Some (4 * 60), Some (9 * 60 + 30))], [(Some (9 * 60 + 30), Some (16 * 60))],
      [(Some (16 * 60), Some (20 * 60))], [(Some (20 * 60), Some (4 * 60))]]"
    by (simp add: us_listed session_entries catalogue_minutes)
qed

subsection \<open>Labels\<close>

lemma labels_distinct:
  "LABEL_DST \<noteq> LABEL_STANDARD" "LABEL_NO_DST \<noteq> LABEL_DST" "LABEL_NO_DST \<noteq> LABEL_STANDARD"
  by (simp_all add: LABEL_DST_def LABEL_STANDARD_def LABEL_NO_DST_def)

lemma computeDstLabel_fallback:
  assumes "supportsDst defn \<noteq> Some False"
    and "case timeZoneName h date (timeZone defn) of None \<Rightarrow> True
         | Some p \<Rightarrow> p = [] \<or> \<not> includesStr (toUpperCase p) ''DT'' \<and>
             \<not> includesStr (toUpperCase p) ''ST'' \<and>
             \<not> includesStr (toUpperCase p) ''STANDARD''"
  shows "computeDstLabel h (Some defn) date =
     (if js_lt (getTimeZoneOffsetMinutes h date (timeZone defn))
           (js_max
              (getTimeZoneOffsetMinutes h (DateUTC h (getUTCFullYear h date) 0 1) (timeZone defn))
              (getTimeZoneOffsetMinutes h (DateUTC h (getUTCFullYear h date) 6 1) (timeZone defn)))
      then LABEL_DST else LABEL_STANDARD)"
  using assms by (auto simp: computeDstLabel_def Let_def split: option.splits)

lemma us_label:
  "dstLabel (getUsSessionSnapshot h date) = computeDstLabel h (Some usPreMarket) date"
  by (simp add: getUsSessionSnapshot_def us_definitions Let_def)

lemma us_flag: "supportsDst usPreMarket \<noteq> Some False" "timeZone usPreMarket = ''America/New_York''"
  by (simp_all add: usPreMarket_def)

text \<open>
  On the runtime without zone abbreviations, New York is 300 minutes behind at
  2024-03-10 06:59 UTC, at the January sample and 240 minutes behind at 07:00 UTC and at
  the July sample.
\<close>

lemma utc_offsets:
  "getUTCFullYear utcHostNoNames 1710053940000 = 2024"
  "getUTCFullYear utcHostNoNames 1710054000000 = 2024"
  "DateUTC utcHostNoNames 2024 0 1 = 1704067200000"
  "DateUTC utcHostNoNames 2024 6 1 = 1719792000000"
  "getTimeZoneOffsetMinutes utcHostNoNames 1710053940000 ''America/New_York'' = Some 300"
  "getTimeZoneOffsetMinutes utcHostNoNames 1710054000000 ''America/New_York'' = Some 240"
  "getTimeZoneOffsetMinutes utcHostNoNames 1704067200000 ''America/New_York'' = Some 300"
  "getTimeZoneOffsetMinutes utcHostNoNames 1719792000000 ''America/New_York'' = Some 240"
  by code_simp+

lemma utc_no_names: "timeZoneName utcHostNoNames date tz = None"
  by (simp add: utcHostNoNames_def)

subsection \<open>The daylight-saving label\<close>

text \<open>
  C4. When the definition does not declare \<^verbatim>\<open>supportsDst: false\<close> and the zone
  abbreviation is missing or contains none of the designators, the label comes from the
  offsets: the baseline is the larger of the offsets at January 1 and July 1 of the UTC
  year of the instant, and the label is the daylight one iff the offset of the instant is
  below the baseline, the standard one otherwise. Hence two instants of one year on the
  two sides of a transition of New York, one with the January offset and one with the
  July offset, get different labels in the US snapshot.
\<close>

theorem offset_fallback_label:
  "(supportsDst defn \<noteq> Some False \<and>
    (case timeZoneName h date (timeZone defn) of None \<Rightarrow> True
     | Some p \<Rightarrow> p = [] \<or> \<not> includesStr (toUpperCase p) ''DT'' \<and>
         \<not> includesStr (toUpperCase p) ''ST'' \<and> \<not> includesStr (toUpperCase p) ''STANDARD'') \<longrightarrow>
      computeDstLabel h (Some defn) date =
        (if js_lt (getTimeZoneOffsetMinutes h date (timeZone defn))
              (js_max
                 (getTimeZoneOffsetMinutes h (DateUTC h (getUTCFullYear h date) 0 1) (timeZone defn))
                 (getTimeZoneOffsetMinutes h (DateUTC h (getUTCFullYear h date) 6 1) (timeZone defn)))
         then LABEL_DST else LABEL_STANDARD) \<and>
      (getTimeZoneOffsetMinutes h date (timeZone defn) = Some c \<and>
       getTimeZoneOffsetMinutes h (DateUTC h (getUTCFullYear h date) 0 1) (timeZone defn) = Some a \<and>
       getTimeZoneOffsetMinutes h (DateUTC h (getUTCFullYear h date) 6 1) (timeZone defn) = Some b \<longrightarrow>
         (computeDstLabel h (Some defn) date = LABEL_DST \<longleftrightarrow> c < max a b) \<and>
         (computeDstLabel h (Some defn) date = LABEL_STANDARD \<longleftrightarrow> max a b \<le> c))) \<and>
   ((case timeZoneName h d1 ''America/New_York'' of None \<Rightarrow> True
     | Some p \<Rightarrow> p = [] \<or> \<not> includesStr (toUpperCase p) ''DT'' \<and>
         \<not> includesStr (toUpperCase p) ''ST'' \<and> \<not> includesStr (toUpperCase p) ''STANDARD'') \<and>
    (case timeZoneName h d2 ''America/New_York'' of None \<Rightarrow> True
     | Some p \<Rightarrow> p = [] \<or> \<not> includesStr (toUpperCase p) ''DT'' \<and>
         \<not> includesStr (toUpperCase p) ''ST'' \<and> \<not> includesStr (toUpperCase p) ''STANDARD'') \<and>
    getUTCFullYear h d1 = y \<and> getUTCFullYear h d2 = y \<and>
    getTimeZoneOffsetMinutes h (DateUTC h y 0 1) ''America/New_York'' = Some jan \<and>
    getTimeZoneOffsetMinutes h (DateUTC h y 6 1) ''America/New_York'' = Some jul \<and>
    getTimeZoneOffsetMinutes h d1 ''America/New_York'' = Some o1 \<and>
    getTimeZoneOffsetMinutes h d2 ''America/New_York'' = Some o2 \<and>
    o1 \<in> {jan, jul} \<and> o2 \<in> {jan, jul} \<and> o1 \<noteq> o2 \<longrightarrow>
      dstLabel (getUsSessionSnapshot h d1) \<noteq> dstLabel (getUsSessionSnapshot h d2) \<and>
      (dstLabel (getUsSessionSnapshot h d1) = LABEL_DST \<longleftrightarrow> o1 < o2))"
proof (intro conjI impI)
  assume a: "supportsDst defn \<noteq> Some False \<and>
    (case timeZoneName h date (timeZone defn) of None \<Rightarrow> True
     | Some p \<Rightarrow> p = [] \<or> \<not> includesStr (toUpperCase p) ''DT'' \<and>
         \<not> includesStr (toUpperCase p) ''ST'' \<and> \<not> includesStr (toUpperCase p) ''STANDARD'')"
  then show eq: "computeDstLabel h (Some defn) date =
      (if js_lt (getTimeZoneOffsetMinutes h date (timeZone defn))
            (js_max
               (getTimeZoneOffsetMinutes h (DateUTC h (getUTCFullYear h date) 0 1) (timeZone defn))
               (getTimeZoneOffsetMinutes h (DateUTC h (getUTCFullYear h date) 6 1) (timeZone defn)))
       then LABEL_DST else LABEL_STANDARD)"
    by (intro computeDstLabel_fallback) simp_all
  assume "getTimeZoneOffsetMinutes h date (timeZone defn) = Some c \<and>
    getTimeZoneOffsetMinutes h (DateUTC h (getUTCFullYear h date) 0 1) (timeZone defn) = Some a \<and>
    getTimeZoneOffsetMinutes h (DateUTC h (getUTCFullYear h date) 6 1) (timeZone defn) = Some b"
  with eq have "computeDstLabel h (Some defn) date =
      (if c < max a b then LABEL_DST else LABEL_STANDARD)"
    by (simp add: js_lt_def js_max_def)
  then show "computeDstLabel h (Some defn) date = LABEL_DST \<longleftrightarrow> c < max a b"
    and "computeDstLabel h (Some defn) date = LABEL_STANDARD \<longleftrightarrow> max a b \<le> c"
    using labels_distinct(1) by (auto simp: not_less)
next
  assume a: "(case timeZoneName h d1 ''America/New_York'' of None \<Rightarrow> True
     | Some p \<Rightarrow> p = [] \<or> \<not> includesStr (toUpperCase p) ''DT'' \<and>
         \<not> includesStr (toUpperCase p) ''ST'' \<and> \<not> includesStr (toUpperCase p) ''STANDARD'') \<and>
    (case timeZoneName h d2 ''America/New_York'' of None \<Rightarrow> True
     | Some p \<Rightarrow> p = [] \<or> \<not> includesStr (toUpperCase p) ''DT'' \<and>
         \<not> includesStr (toUpperCase p) ''ST'' \<and> \<not> includesStr (toUpperCase p) ''STANDARD'') \<and>
    getUTCFullYear h d1 = y \<and> getUTCFullYear h d2 = y \<and>
    getTimeZoneOffsetMinutes h (DateUTC h y 0 1) ''America/New_York'' = Some jan \<and>
    getTimeZoneOffsetMinutes h (DateUTC h y 6 1) ''America/New_York'' = Some jul \<and>
    getTimeZoneOffsetMinutes h d1 ''America/New_York'' = Some o1 \<and>
    getTimeZoneOffsetMinutes h d2 ''America/New_York'' = Some o2 \<and>
    o1 \<in> {jan, jul} \<and> o2 \<in> {jan, jul} \<and> o1 \<noteq> o2"
  have l1: "dstLabel (getUsSessionSnapshot h d1) =
      (if o1 < max jan jul then LABEL_DST else LABEL_STANDARD)"
    using a computeDstLabel_fallback [of usPreMarket h d1]
    by (simp add: us_label us_flag js_lt_def js_max_def)
  have l2: "dstLabel (getUsSessionSnapshot h d2) =
      (if o2 < max jan jul then LABEL_DST else LABEL_STANDARD)"
    using a computeDstLabel_fallback [of usPreMarket h d2]
    by (simp add: us_label us_flag js_lt_def js_max_def)
  from a have "o1 = jan \<and> o2 = jul \<or> o1 = jul \<and> o2 = jan"
    by auto
  with a l1 l2 labels_distinct(1)
  show "dstLabel (getUsSessionSnapshot h d1) \<noteq> dstLabel (getUsSessionSnapshot h d2)"
    and "dstLabel (getUsSessionSnapshot h d1) = LABEL_DST \<longleftrightarrow> o1 < o2"
    by (auto simp: max_def split: if_splits)
qed

theorem offset_fallback_label_witness:
  "supportsDst usPreMarket \<noteq> Some False \<and>
   timeZoneName utcHostNoNames 1710053940000 ''America/New_York'' = None \<and>
   timeZoneName utcHostNoNames 1710054000000 ''America/New_York'' = None \<and>
   getUTCFullYear utcHostNoNames 1710053940000 = 2024 \<and>
   getUTCFullYear utcHostNoNames 1710054000000 = 2024 \<and>
   getTimeZoneOffsetMinutes utcHostNoNames (DateUTC utcHostNoNames 2024 0 1) ''America/New_York'' =
     Some 300 \<and>
   getTimeZoneOffsetMinutes utcHostNoNames (DateUTC utcHostNoNames 2024 6 1) ''America/New_York'' =
     Some 240 \<and>
   getTimeZoneOffsetMinutes utcHostNoNames 1710053940000 ''America/New_York'' = Some 300 \<and>
   getTimeZoneOffsetMinutes utcHostNoNames 1710054000000 ''America/New_York'' = Some 240 \<and>
   computeDstLabel utcHostNoNames (Some usPreMarket) 1710053940000 = LABEL_STANDARD \<and>
   computeDstLabel utcHostNoNames (Some usPreMarket) 1710054000000 = LABEL_DST \<and>
   dstLabel (getUsSessionSnapshot utcHostNoNames 1710053940000) \<noteq>
     dstLabel (getUsSessionSnapshot utcHostNoNames 1710054000000)"
proof -
  note t = offset_fallback_label [where h = utcHostNoNames and defn = usPreMarket
      and ?d1.0 = 1710053940000 and ?d2.0 = 1710054000000 and y = 2024 and jan = 300 and jul = 240
      and ?o1.0 = 300 and ?o2.0 = 240 and a = 300 and b = 240]
  have before: "computeDstLabel utcHostNoNames (Some usPreMarket) 1710053940000 = LABEL_STANDARD"
    using t [where date = 1710053940000 and c = 300]
    by (simp add: us_flag utc_no_names utc_offsets js_lt_def js_max_def)
  have after: "computeDstLabel utcHostNoNames (Some usPreMarket) 1710054000000 = LABEL_DST"
    using t [where date = 1710054000000 and c = 240]
    by (simp add: us_flag utc_no_names utc_offsets js_lt_def js_max_def)
  have flip: "dstLabel (getUsSessionSnapshot utcHostNoNames 1710053940000) \<noteq>
      dstLabel (getUsSessionSnapshot utcHostNoNames 1710054000000)"
    using t [where date = 0 and c = 0]
    by (simp add: utc_no_names utc_offsets)
  from before after flip show ?thesis
    by (simp add: us_flag utc_no_names utc_offsets)
qed

text \<open>
  C5. The HK snapshot always carries the fixed label of a zone without daylight saving
  and never the daylight label: both HK definitions declare \<^verbatim>\<open>supportsDst: false\<close>,
  the label is computed from the first of them, and it depends neither on the runtime nor
  on the instant.
\<close>

theorem hk_label_fixed:
  "dstLabel (getHkSessionSnapshot h date) = LABEL_NO_DST \<and>
   dstLabel (getHkSessionSnapshot h date) \<noteq> LABEL_DST \<and>
   map supportsDst (listSessionsByMarket Hk) = [Some False, Some False] \<and>
   dstLabel (getHkSessionSnapshot h date) = computeDstLabel h (Some hkRegular) date \<and>
   computeDstLabel h (Some hkRegular) date = computeDstLabel h' (Some hkRegular) date'"
proof -
  have "dstLabel (getHkSessionSnapshot h date) = computeDstLabel h (Some hkRegular) date"
    by (simp add: getHkSessionSnapshot_def hk_definitions Let_def)
  moreover have "map supportsDst (listSessionsByMarket Hk) = [Some False, Some False]"
    by (simp add: hk_listed hkRegular_def hkEvening_def)
  ultimately show ?thesis
    using labels_distinct(2) by (simp add: hk_label)
qed

subsection \<open>The catalogue as configuration\<close>

text \<open>
  C6, as stated: a session definition with zero windows is rejected when the registry is
  built. The code has no such step: the catalogue is an array literal, and the functions
  that build the list of a market and select the current session take a definition with
  no window like any other. Here the pre-market entry has lost its window: the list of
  the US market is built with it, and at 05:00 in New York, where the shipped catalogue
  answers with the pre-market session, the selection answers with no session.
\<close>

theorem zero_windows_accepted:
  "windows (usPreMarket\<lparr>windows := []\<rparr>) = [] \<and>
   orderedDefinitions US_SESSION_ORDER
     [usPreMarket\<lparr>windows := []\<rparr>, usRegular, usAfterHours, usOvernight, hkRegular, hkEvening] =
     [usPreMarket\<lparr>windows := []\<rparr>, usRegular, usAfterHours, usOvernight] \<and>
   findCurrent utcHost 1705399200000
     [usPreMarket\<lparr>windows := []\<rparr>, usRegular, usAfterHours, usOvernight] = None \<and>
   current (getUsSessionSnapshot utcHost 1705399200000) = Some usPreMarket"
proof -
  have m: "getMinutesInTimeZone utcHost 1705399200000 ''America/New_York'' = 300"
    by code_simp
  have "orderedDefinitions US_SESSION_ORDER
     [usPreMarket\<lparr>windows := []\<rparr>, usRegular, usAfterHours, usOvernight, hkRegular, hkEvening] =
     [usPreMarket\<lparr>windows := []\<rparr>, usRegular, usAfterHours, usOvernight]"
    by (simp add: orderedDefinitions_def US_SESSION_ORDER_def List.map_filter_def
        session_entries session_names)
  moreover have "findCurrent utcHost 1705399200000
     [usPreMarket\<lparr>windows := []\<rparr>, usRegular, usAfterHours, usOvernight] = None"
    by (simp add: findCurrent_def within_catalogue m) (simp add: isWithinWindow_some)
  moreover have "current (getUsSessionSnapshot utcHost 1705399200000) = Some usPreMarket"
    by (simp add: us_current findCurrent_def within_catalogue m)
  ultimately show ?thesis
    by simp
qed

text \<open>
  C6, amended: a session definition with zero windows is not rejected. It is listed under
  its name like any other definition, it is active at no instant, and the selection of
  the current session passes over it.
\<close>

theorem zero_windows_never_active:
  "windows defn = [] \<longrightarrow>
     orderedDefinitions [name defn] (defn # defs) = [defn] \<and>
     \<not> isWithinWindow h date defn \<and>
     findCurrent h date definitions \<noteq> Some defn \<and>
     findCurrent h date (defn # definitions) = findCurrent h date definitions"
proof
  assume "windows defn = []"
  then have off: "\<not> isWithinWindow h date defn"
    by (simp add: isWithinWindow_some)
  then have "findCurrent h date definitions \<noteq> Some defn"
    using findCurrent_active by blast
  moreover have "orderedDefinitions [name defn] (defn # defs) = [defn]"
    by (simp add: orderedDefinitions_def List.map_filter_def)
  moreover from off have "findCurrent h date (defn # definitions) = findCurrent h date definitions"
    by (simp add: findCurrent_def)
  ultimately show "orderedDefinitions [name defn] (defn # defs) = [defn] \<and>
     \<not> isWithinWindow h date defn \<and>
     findCurrent h date definitions \<noteq> Some defn \<and>
     findCurrent h date (defn # definitions) = findCurrent h date definitions"
    using off by simp
qed

theorem zero_windows_never_active_witness:
  "windows (usPreMarket\<lparr>windows := []\<rparr>) = [] \<and>
   orderedDefinitions [name (usPreMarket\<lparr>windows := []\<rparr>)]
     [usPreMarket\<lparr>windows := []\<rparr>, usRegular] = [usPreMarket\<lparr>windows := []\<rparr>] \<and>
   \<not> isWithinWindow utcHost 1705399200000 (usPreMarket\<lparr>windows := []\<rparr>) \<and>
   findCurrent utcHost 1705399200000 [usPreMarket\<lparr>windows := []\<rparr>, usRegular] = None"
proof -
  have m: "getMinutesInTimeZone utcHost 1705399200000 ''America/New_York'' = 300"
    by code_simp
  have r: "findCurrent utcHost 1705399200000 [usRegular] = None"
    by (simp add: findCurrent_def within_catalogue m)
  from zero_windows_never_active [where defn = "usPreMarket\<lparr>windows := []\<rparr>"
      and defs = "[usRegular]" and h = utcHost and date = 1705399200000
      and definitions = "[usRegular]"] r
  show ?thesis
    by simp
qed

text \<open>
  C7. Listing by market returns the entries of the catalogue in its own order, which is
  the display order of the snapshots: for the US pre-market 04:00 to 09:30, regular 09:30
  to 16:00, after-hours 16:00 to 20:00 and overnight 20:00 to 04:00, all in
  America/New_York and without the non-DST flag; for HK regular with the windows 09:30 to
  12:00 and 13:00 to 16:00, then evening 17:15 to 03:00, both in Asia/Hong_Kong and with
  \<^verbatim>\<open>supportsDst: false\<close>.
\<close>

theorem catalogue_in_display_order:
  "map (\<lambda>defn. (name defn, market defn, timeZone defn,
          map (\<lambda>w. (start w, end' w)) (windows defn), supportsDst defn))
     (listSessionsByMarket Us) =
     [(NAME_US_PRE, Us, ''America/New_York'', [(''04:00'', ''09:30'')], None),
      (NAME_US_REGULAR, Us, ''America/New_York'', [(''09:30'', ''16:00'')], None),
      (NAME_US_AFTER, Us, ''America/New_York'', [(''16:00'', ''20:00'')], None),
      (NAME_US_OVERNIGHT, Us, ''America/New_York'', [(''20:00'', ''04:00'')], None)] \<and>
   map (\<lambda>defn. (name defn, market defn, timeZone defn,
          map (\<lambda>w. (start w, end' w)) (windows defn), supportsDst defn))
     (listSessionsByMarket Hk) =
     [(NAME_HK_REGULAR, Hk, ''Asia/Hong_Kong'',
       [(''09:30'', ''12:00''), (''13:00'', ''16:00'')], Some False),
      (NAME_HK_EVENING, Hk, ''Asia/Hong_Kong'', [(''17:15'', ''03:00'')], Some False)] \<and>
   listSessionsByMarket Us @ listSessionsByMarket Hk = SESSION_DEFINITIONS \<and>
   listSessionsByMarket Us = orderedDefinitions US_SESSION_ORDER SESSION_DEFINITIONS \<and>
   listSessionsByMarket Hk = orderedDefinitions HK_SESSION_ORDER SESSION_DEFINITIONS \<and>
   map name (listSessionsByMarket Us) = US_SESSION_ORDER \<and>
   map name (listSessionsByMarket Hk) = HK_SESSION_ORDER \<and>
   map (\<lambda>defn. map (\<lambda>w. (timeStringToMinutes (start w), timeStringToMinutes (end' w)))
          (windows defn)) SESSION_DEFINITIONS =
     [[(Some (4 * 60), Some (9 * 60 + 30))], [(Some (9 * 60 + 30), Some (16 * 60))],
      [(Some (16 * 60), Some (20 * 60))], [(Some (20 * 60), Some (4 * 60))],
      [(Some (9 * 60 + 30), Some (12 * 60)), (Some (13 * 60), Some (16 * 60))],
      [(Some (17 * 60 + 15), Some (3 * 60))]]"
proof (intro conjI)
  show "map (\<lambda>defn. (name defn, market defn, timeZone defn,
          map (\<lambda>w. (start w, end' w)) (windows defn), supportsDst defn))
     (listSessionsByMarket Us) =
     [(NAME_US_PRE, Us, ''America/New_York'', [(''04:00'', ''09:30'')], None),
      (NAME_US_REGULAR, Us, ''America/New_York'', [(''09:30'', ''16:00'')], None),
      (NAME_US_AFTER, Us, ''America/New_York'', [(''16:00'', ''20:00'')], None),
      (NAME_US_OVERNIGHT, Us, ''America/New_York'', [(''20:00'', ''04:00'')], None)]"
    by (simp add: us_listed session_entries)
  show "map (\<lambda>defn. (name defn, market defn, timeZone defn,
          map (\<lambda>w. (start w, end' w)) (windows defn), supportsDst defn))
     (listSessionsByMarket Hk) =
     [(NAME_HK_REGULAR, Hk, ''Asia/Hong_Kong'',
       [(''09:30'', ''12:00''), (''13:00'', ''16:00'')], Some False),
      (NAME_HK_EVENING, Hk, ''Asia/Hong_Kong'', [(''17:15'', ''03:00'')], Some False)]"
    by (simp add: hk_listed session_entries)
  show "listSessionsByMarket Us @ listSessionsByMarket Hk = SESSION_DEFINITIONS"
    by (simp add: us_listed hk_listed SESSION_DEFINITIONS_def)
  show "listSessionsByMarket Us = orderedDefinitions US_SESSION_ORDER SESSION_DEFINITIONS"
    by (simp add: us_listed us_definitions)
  show "listSessionsByMarket Hk = orderedDefinitions HK_SESSION_ORDER SESSION_DEFINITIONS"
    by (simp add: hk_listed hk_definitions)
  show "map name (listSessionsByMarket Us) = US_SESSION_ORDER"
    by (simp add: us_listed US_SESSION_ORDER_def session_entries)
  show "map name (listSessionsByMarket Hk) = HK_SESSION_ORDER"
    by (simp add: hk_listed HK_SESSION_ORDER_def session_entries)
  show "map (\<lambda>defn. map (\<lambda>w. (timeStringToMinutes (start w), timeStringToMinutes (end' w)))
          (windows defn)) SESSION_DEFINITIONS =
     [[(Some (4 * 60), Some (9 * 60 + 30))], [(Some (9 * 60 + 30), Some (16 * 60))],
      [(Some (16 * 60), Some (20 * 60))], [(Some (20 * 60), Some (4 * 60))],
      [(Some (9 * 60 + 30), Some (12 * 60)), (Some (13 * 60), Some (16 * 60))],
      [(Some (17 * 60 + 15), Some (3 * 60))]]"
    by (simp add: SESSION_DEFINITIONS_def session_entries catalogue_minutes)
qed


end
